theory Spec2Isabelle
  imports Complex_Main
begin

section \<open>Python values, exceptions and effects\<close>

text \<open>
  The gateway \<^verbatim>\<open>random_forest_model/data_pipeline.py\<close> receives MQTT messages, decodes
  them as JSON, calibrates the gas reading, asks a pre-trained classifier for a label and
  a probability, prints a report and inserts one row into a MySQL table.

  A Python float is an IEEE double: a finite value, an infinity or NaN. The sign of zero
  is not modelled (\<open>-0.0\<close> and \<open>0.0\<close> are both \<open>Fin 0\<close>); it changes no comparison and
  no exception of the code.
\<close>

datatype pyfloat = Fin real | PosInf | NegInf | NaN

text \<open>
  Values that \<^verbatim>\<open>json.loads\<close> produces. A dictionary is an association list read with
  \<open>map_of\<close>. Python integers are unbounded. A string is given by its UTF-8 bytes
  (\<open>PStr\<close>); a string with a lone surrogate code point, such as the JSON text
  \<^verbatim>\<open>"\ud800"\<close>, has no UTF-8 encoding and is given by its code points (\<open>PSurrogateStr\<close>).
\<close>

datatype pyval =
    PNone
  | PBool bool
  | PInt int
  | PFloat pyfloat
  | PStr string
  | PSurrogateStr "nat list"
  | PList "pyval list"
  | PDict "(string \<times> pyval) list"

text \<open>
  The exceptions of class \<^verbatim>\<open>Exception\<close> that the handler's operations raise.
  \<open>MySQLError\<close> stands for \<^verbatim>\<open>mysql.connector.Error\<close> and its subclasses,
  \<open>RuntimeError\<close> for any other subclass of \<^verbatim>\<open>Exception\<close>. Exceptions that are not
  subclasses of \<^verbatim>\<open>Exception\<close> (keyboard interrupt, interpreter exit) are not modelled.
\<close>

datatype py_error =
    UnicodeDecodeError
  | UnicodeEncodeError
  | JSONDecodeError
  | AttributeError
  | TypeError
  | ZeroDivisionError
  | OverflowError
  | IndexError
  | ValueError
  | MySQLError
  | RuntimeError

fun is_mysql_error :: "py_error \<Rightarrow> bool" where
  "is_mysql_error MySQLError = True"
| "is_mysql_error _ = False"

section \<open>Float arithmetic\<close>

text \<open>
  Rounding of a real to the nearest integer, ties to the even one, and with it the
  rounding of a real to the nearest double: the spacing of the doubles around \<open>x\<close> is
  \<open>2\<close> to the power \<open>\<lfloor>log\<^sub>2 |x|\<rfloor> - 52\<close>, and \<open>2\<close> to the \<open>-1074\<close> in the subnormal range.
\<close>

definition round_even :: "real \<Rightarrow> int" where
  "round_even y =
     (let f = \<lfloor>y\<rfloor>; d = y - of_int f
      in if d < 1 / 2 then f else if 1 / 2 < d then f + 1 else if even f then f else f + 1)"

definition quantum_exp :: "real \<Rightarrow> int" where
  "quantum_exp x = max (\<lfloor>log 2 \<bar>x\<bar>\<rfloor> - 52) (- 1074)"

definition quantum :: "real \<Rightarrow> real" where
  "quantum x = 2 powr of_int (quantum_exp x)"

definition float_round :: "real \<Rightarrow> real" where
  "float_round x = (if x = 0 then 0 else of_int (round_even (x / quantum x)) * quantum x)"

text \<open>
  The largest double, and the bound from which rounding leaves the range of the doubles:
  the midpoint between the largest double and \<open>2\<close> to the \<open>1024\<close>.
\<close>

definition max_float :: real where
  "max_float = 2 ^ 1024 - 2 ^ 971"

definition float_overflow :: real where
  "float_overflow = 2 ^ 1024 - 2 ^ 970"

text \<open>The double that an exact result rounds to; beyond the range it is an infinity.\<close>

definition to_float :: "real \<Rightarrow> pyfloat" where
  "to_float x =
     (if float_overflow \<le> x then PosInf
      else if x \<le> - float_overflow then NegInf
      else Fin (float_round x))"

fun fneg :: "pyfloat \<Rightarrow> pyfloat" where
  "fneg (Fin a) = Fin (- a)"
| "fneg PosInf = NegInf"
| "fneg NegInf = PosInf"
| "fneg NaN = NaN"

fun fadd :: "pyfloat \<Rightarrow> pyfloat \<Rightarrow> pyfloat" where
  "fadd (Fin a) (Fin b) = to_float (a + b)"
| "fadd NaN b = NaN"
| "fadd a NaN = NaN"
| "fadd PosInf NegInf = NaN"
| "fadd NegInf PosInf = NaN"
| "fadd PosInf b = PosInf"
| "fadd a PosInf = PosInf"
| "fadd NegInf b = NegInf"
| "fadd a NegInf = NegInf"

definition fsub :: "pyfloat \<Rightarrow> pyfloat \<Rightarrow> pyfloat" where
  "fsub a b = fadd a (fneg b)"

fun fmul :: "pyfloat \<Rightarrow> pyfloat \<Rightarrow> pyfloat" where
  "fmul (Fin a) (Fin b) = to_float (a * b)"
| "fmul NaN b = NaN"
| "fmul a NaN = NaN"
| "fmul (Fin a) b = (if a = 0 then NaN else if 0 < a then b else fneg b)"
| "fmul a (Fin b) = (if b = 0 then NaN else if 0 < b then a else fneg a)"
| "fmul PosInf b = b"
| "fmul NegInf b = fneg b"

text \<open>
  Division by a divisor that is not zero (Python raises before it divides by zero).
\<close>

fun fdiv :: "pyfloat \<Rightarrow> pyfloat \<Rightarrow> pyfloat" where
  "fdiv (Fin a) (Fin b) = to_float (a / b)"
| "fdiv NaN b = NaN"
| "fdiv a NaN = NaN"
| "fdiv (Fin a) b = Fin 0"
| "fdiv a (Fin b) = (if 0 < b then a else fneg a)"
| "fdiv a b = NaN"

text \<open>The comparisons \<^verbatim>\<open>a > b\<close> and \<^verbatim>\<open>a <= b\<close> of floats; both are false on NaN.\<close>

fun fgt :: "pyfloat \<Rightarrow> pyfloat \<Rightarrow> bool" where
  "fgt (Fin a) (Fin b) = (b < a)"
| "fgt NaN b = False"
| "fgt a NaN = False"
| "fgt PosInf PosInf = False"
| "fgt PosInf b = True"
| "fgt a NegInf = (a \<noteq> NegInf)"
| "fgt a b = False"

fun fle :: "pyfloat \<Rightarrow> pyfloat \<Rightarrow> bool" where
  "fle (Fin a) (Fin b) = (a \<le> b)"
| "fle NaN b = False"
| "fle a NaN = False"
| "fle NegInf b = True"
| "fle a PosInf = True"
| "fle a b = False"

section \<open>Python numbers\<close>

text \<open>
  The operands of Python's arithmetic: integers (a boolean counts as 0 or 1) and floats.
  Any other value raises \<^verbatim>\<open>TypeError\<close> in a subtraction.
\<close>

datatype pynum = NInt int | NFloat pyfloat

fun num_of :: "pyval \<Rightarrow> py_error + pynum" where
  "num_of (PInt i) = Inr (NInt i)"
| "num_of (PFloat f) = Inr (NFloat f)"
| "num_of (PBool b) = Inr (NInt (if b then 1 else 0))"
| "num_of _ = Inl TypeError"

fun val_of :: "pynum \<Rightarrow> pyval" where
  "val_of (NInt i) = PInt i"
| "val_of (NFloat f) = PFloat f"

definition bind_err :: "py_error + 'a \<Rightarrow> ('a \<Rightarrow> py_error + 'b) \<Rightarrow> py_error + 'b" where
  "bind_err r f = (case r of Inl e \<Rightarrow> Inl e | Inr x \<Rightarrow> f x)"

text \<open>
  The conversion of an integer operand to a float in mixed arithmetic: an integer that
  rounds beyond the doubles raises \<^verbatim>\<open>OverflowError\<close>.
\<close>

definition int_to_float :: "int \<Rightarrow> py_error + pyfloat" where
  "int_to_float i =
     (if float_overflow \<le> \<bar>of_int i\<bar> then Inl OverflowError
      else Inr (Fin (float_round (of_int i))))"

fun as_float :: "pynum \<Rightarrow> py_error + pyfloat" where
  "as_float (NInt i) = int_to_float i"
| "as_float (NFloat f) = Inr f"

definition float_op :: "(pyfloat \<Rightarrow> pyfloat \<Rightarrow> pyfloat) \<Rightarrow> pynum \<Rightarrow> pynum \<Rightarrow> py_error + pynum" where
  "float_op f a b =
     bind_err (as_float a) (\<lambda>x. bind_err (as_float b) (\<lambda>y. Inr (NFloat (f x y))))"

text \<open>
  \<^verbatim>\<open>a - b\<close>, \<^verbatim>\<open>a * b\<close> and \<^verbatim>\<open>a + b\<close>: exact on two integers, float arithmetic
  otherwise. An overflowing float operation gives an infinity, not an exception.
\<close>

fun py_sub :: "pynum \<Rightarrow> pynum \<Rightarrow> py_error + pynum" where
  "py_sub (NInt a) (NInt b) = Inr (NInt (a - b))"
| "py_sub a b = float_op fsub a b"

fun py_mul :: "pynum \<Rightarrow> pynum \<Rightarrow> py_error + pynum" where
  "py_mul (NInt a) (NInt b) = Inr (NInt (a * b))"
| "py_mul a b = float_op fmul a b"

fun py_add :: "pynum \<Rightarrow> pynum \<Rightarrow> py_error + pynum" where
  "py_add (NInt a) (NInt b) = Inr (NInt (a + b))"
| "py_add a b = float_op fadd a b"

text \<open>
  \<^verbatim>\<open>a / b\<close>. On two integers the exact quotient is rounded once, and a quotient that
  rounds beyond the doubles raises \<^verbatim>\<open>OverflowError\<close>. Otherwise both operands are
  converted, and a zero divisor raises \<^verbatim>\<open>ZeroDivisionError\<close>.
\<close>

fun py_truediv :: "pynum \<Rightarrow> pynum \<Rightarrow> py_error + pynum" where
  "py_truediv (NInt a) (NInt b) =
     (if b = 0 then Inl ZeroDivisionError
      else if float_overflow \<le> \<bar>of_int a / of_int b\<bar> then Inl OverflowError
      else Inr (NFloat (Fin (float_round (of_int a / of_int b)))))"
| "py_truediv a b =
     bind_err (as_float a) (\<lambda>x. bind_err (as_float b) (\<lambda>y.
       if y = Fin 0 then Inl ZeroDivisionError else Inr (NFloat (fdiv x y))))"

section \<open>The world of the handler\<close>

text \<open>One row of the table \<^verbatim>\<open>sensor_logs\<close>, with the columns of the INSERT statement.\<close>

record sensor_log =
  node_id :: pyval
  temp_val :: pyval
  humidity_val :: pyval
  smoke_level :: pynum
  fire_risk :: pyfloat
  alert_status :: string

text \<open>
  What the handler does to the outside: the calls of the classifier, the lines it prints
  (as structured events, without timestamp and number formatting) and its calls of the
  persistence sink. \<open>SaveAttempt row\<close> is one persistence attempt: \<^verbatim>\<open>save_to_database\<close> is
  entered with this row and tries to connect, to execute the INSERT and to commit.
\<close>

datatype event =
    ModelPredict "pyval list"
  | ModelPredictProba "pyval list"
  | PrintNode pyval
  | PrintData pyval pynum pyval
  | PrintFireDetected pyfloat
  | PrintNormal pyfloat
  | SaveAttempt sensor_log
  | PrintSaved pyval
  | PrintDatabaseError py_error
  | PrintErrorProcessing py_error

record world =
  events :: "event list"
  sensor_logs :: "sensor_log list"

definition empty_world :: world where
  "empty_world = \<lparr>events = [], sensor_logs = []\<rparr>"

text \<open>
  A statement sequence that may raise: it takes the world and returns the world as it is
  when the sequence ends or raises, with the exception (\<open>Inl\<close>) or the value (\<open>Inr\<close>).
\<close>

type_synonym 'a io = "world \<Rightarrow> (py_error + 'a) \<times> world"

definition io_raise :: "py_error \<Rightarrow> 'a io" where
  "io_raise e w = (Inl e, w)"

definition io_lift :: "py_error + 'a \<Rightarrow> 'a io" where
  "io_lift r w = (r, w)"

definition io_bind :: "'a io \<Rightarrow> ('a \<Rightarrow> 'b io) \<Rightarrow> 'b io" where
  "io_bind m f w = (case m w of (Inl e, w') \<Rightarrow> (Inl e, w') | (Inr x, w') \<Rightarrow> f x w')"

text \<open>
  \<^verbatim>\<open>try: body  except C as e: handler\<close>, where \<open>catches\<close> says which exceptions are
  instances of \<^verbatim>\<open>C\<close>; any other exception propagates.
\<close>

definition io_try :: "unit io \<Rightarrow> (py_error \<Rightarrow> bool) \<Rightarrow> (py_error \<Rightarrow> unit io) \<Rightarrow> unit io" where
  "io_try body catches handler w =
     (case body w of
        (Inl e, w') \<Rightarrow> if catches e then handler e w' else (Inl e, w')
      | (Inr x, w') \<Rightarrow> (Inr x, w'))"

definition emit :: "event \<Rightarrow> unit io" where
  "emit ev w = (Inr (), w\<lparr>events := events w @ [ev]\<rparr>)"

text \<open>
  \<^verbatim>\<open>print\<close> of a line that formats the given values with \<^verbatim>\<open>str\<close>. The standard output
  is taken to encode in UTF-8, so the line is written unless one of the values is a string
  with a lone surrogate, on which \<^verbatim>\<open>print\<close> raises \<^verbatim>\<open>UnicodeEncodeError\<close> and writes
  nothing. Numbers, and lists and dictionaries (whose elements are formatted with
  \<^verbatim>\<open>repr\<close>, which escapes surrogates), always print.
\<close>

fun printable :: "pyval \<Rightarrow> bool" where
  "printable (PSurrogateStr cps) = False"
| "printable _ = True"

definition print_line :: "pyval list \<Rightarrow> event \<Rightarrow> unit io" where
  "print_line vs ev = (if list_all printable vs then emit ev else io_raise UnicodeEncodeError)"

section \<open>The environment of the gateway\<close>

text \<open>
  Library code and the loaded model are parameters: \<open>payload_decode\<close> is
  \<^verbatim>\<open>bytes.decode\<close>, \<open>json_loads\<close> is \<^verbatim>\<open>json.loads\<close>, \<open>predict\<close> gives the label
  \<^verbatim>\<open>model.predict([features])[0]\<close> and \<open>predict_proba\<close> the row
  \<^verbatim>\<open>model.predict_proba([features])[0]\<close> of class probabilities. Each may raise.
\<close>

record env =
  payload_decode :: "string \<Rightarrow> py_error + string"
  json_loads :: "string \<Rightarrow> py_error + pyval"
  predict :: "pyval list \<Rightarrow> py_error + int"
  predict_proba :: "pyval list \<Rightarrow> py_error + pyfloat list"

text \<open>
  One delivery of the broker: the payload bytes, and the condition of the MySQL server
  while this message is handled (\<open>None\<close>: connect, execute and commit succeed; \<open>Some e\<close>:
  one of them raises \<open>e\<close> and the row is not stored).
\<close>

record delivery =
  payload :: string
  db_state :: "py_error option"

section \<open>Helper functions\<close>

text \<open>
  \<^verbatim>\<open>map_value\<close> (lines 34-35), on numbers. Python evaluates the expression from left to
  right: \<^verbatim>\<open>x - in_min\<close>, \<^verbatim>\<open>out_max - out_min\<close>, their product, \<^verbatim>\<open>in_max - in_min\<close>,
  the quotient, and the sum with \<^verbatim>\<open>out_min\<close>; the first operation that raises ends it.
\<close>

definition map_value :: "pynum \<Rightarrow> pynum \<Rightarrow> pynum \<Rightarrow> pynum \<Rightarrow> pynum \<Rightarrow> py_error + pynum" where
  "map_value x in_min in_max out_min out_max =
     bind_err (py_sub x in_min) (\<lambda>t1.
     bind_err (py_sub out_max out_min) (\<lambda>t2.
     bind_err (py_mul t1 t2) (\<lambda>t3.
     bind_err (py_sub in_max in_min) (\<lambda>t4.
     bind_err (py_truediv t3 t4) (\<lambda>t5.
     py_add t5 out_min)))))"

text \<open>
  \<^verbatim>\<open>data.get(key, default)\<close>: only a dictionary has the method \<^verbatim>\<open>get\<close>; on any other
  value the attribute lookup raises \<^verbatim>\<open>AttributeError\<close>.
\<close>

definition get_or :: "(string \<times> pyval) list \<Rightarrow> string \<Rightarrow> pyval \<Rightarrow> pyval" where
  "get_or kvs k dflt = (case map_of kvs k of None \<Rightarrow> dflt | Some v \<Rightarrow> v)"

fun dict_get :: "pyval \<Rightarrow> string \<Rightarrow> pyval \<Rightarrow> py_error + pyval" where
  "dict_get (PDict kvs) k dflt = Inr (get_or kvs k dflt)"
| "dict_get _ k dflt = Inl AttributeError"

fun is_dict :: "pyval \<Rightarrow> bool" where
  "is_dict (PDict kvs) = True"
| "is_dict _ = False"

text \<open>\<^verbatim>\<open>row[i]\<close> on an array, for an index that is not negative.\<close>

definition index :: "pyfloat list \<Rightarrow> nat \<Rightarrow> py_error + pyfloat" where
  "index row i = (if i < length row then Inr (row ! i) else Inl IndexError)"

text \<open>The status string of lines 94-98; the integer 50 is compared as the float 50.0.\<close>

definition status_label :: "int \<Rightarrow> pyfloat \<Rightarrow> string" where
  "status_label prediction fire_risk_percent =
     (if prediction = 1 then ''CRITICAL''
      else if fgt fire_risk_percent (Fin 50) then ''WARNING''
      else ''SAFE'')"

text \<open>
  The body of the \<^verbatim>\<open>try\<close> block of \<^verbatim>\<open>save_to_database\<close> up to the commit
  (lines 42-54): one persistence attempt with the row. The event \<open>SaveAttempt\<close> records
  that the block was entered, whichever of connect, execute and commit raises afterwards
  (a failing connect sends no INSERT to the server). The row is in the table afterwards
  only if connect, execute and commit all succeed; \<open>db\<close> is the exception that the
  database raises on this attempt, if any.
\<close>

definition mysql_insert :: "py_error option \<Rightarrow> sensor_log \<Rightarrow> unit io" where
  "mysql_insert db row =
     io_bind (emit (SaveAttempt row)) (\<lambda>_.
       case db of
         None \<Rightarrow> (\<lambda>w. (Inr (), w\<lparr>sensor_logs := sensor_logs w @ [row]\<rparr>))
       | Some e \<Rightarrow> io_raise e)"

text \<open>
  \<^verbatim>\<open>save_to_database\<close> (lines 37-58): only \<^verbatim>\<open>mysql.connector.Error\<close> is caught; any
  other exception leaves the function. The text of an exception is taken to be printable
  (lines 58 and 114): Python writes the bytes of a decode error and the character of an
  encode error in escaped form. Line 55 prints the node id again, which can raise as
  line 102 can.
\<close>

definition save_to_database ::
  "py_error option \<Rightarrow> pyval \<Rightarrow> pyval \<Rightarrow> pyval \<Rightarrow> pynum \<Rightarrow> pyfloat \<Rightarrow> string \<Rightarrow> unit io" where
  "save_to_database db node temp hum smoke risk status =
     io_try
       (io_bind
          (mysql_insert db
             \<lparr>node_id = node, temp_val = temp, humidity_val = hum,
              smoke_level = smoke, fire_risk = risk, alert_status = status\<rparr>)
          (\<lambda>_. print_line [node] (PrintSaved node)))
       is_mysql_error
       (\<lambda>err. emit (PrintDatabaseError err))"

section \<open>The message handler and the loop\<close>

text \<open>
  The two calls of the classifier (lines 89-90), each recorded with the features it is
  given before the model answers or raises.
\<close>

definition model_predict :: "env \<Rightarrow> pyval list \<Rightarrow> int io" where
  "model_predict env features =
     io_bind (emit (ModelPredict features)) (\<lambda>_. io_lift (predict env features))"

definition model_predict_proba :: "env \<Rightarrow> pyval list \<Rightarrow> pyfloat list io" where
  "model_predict_proba env features =
     io_bind (emit (ModelPredictProba features)) (\<lambda>_. io_lift (predict_proba env features))"

text \<open>
  \<^verbatim>\<open>on_message\<close> (lines 70-114). The whole body is inside
  \<^verbatim>\<open>try: ... except Exception as e: print(...)\<close>, which catches every modelled exception.
  The steps follow the source in order: decode and parse (73-74), the four reads with their
  defaults (78-81), the calibration (84), the two classifier calls on the same features
  (87-90), the risk percentage from the probability of class 1 (91), the status (94-98),
  the report (101-108) and the save (111). Line 101 prints a fixed separator and is not
  recorded. Line 102 prints the node id, line 103 the raw gas, the calibrated gas and the
  temperature, lines 106 and 108 a number only, so only lines 102 and 103 can raise.
\<close>

definition on_message :: "env \<Rightarrow> delivery \<Rightarrow> unit io" where
  "on_message env msg =
     io_try
       (io_bind (io_lift (payload_decode env (payload msg))) (\<lambda>payload_str.
        io_bind (io_lift (json_loads env payload_str)) (\<lambda>data.
        io_bind (io_lift (dict_get data ''node_id'' (PStr ''node_unknown''))) (\<lambda>node_id.
        io_bind (io_lift (dict_get data ''raw_gas'' (PInt 0))) (\<lambda>raw_gas_esp32.
        io_bind (io_lift (dict_get data ''temp'' (PInt 0))) (\<lambda>temp_esp32.
        io_bind (io_lift (dict_get data ''humidity'' (PInt 50))) (\<lambda>hum_esp32.
        io_bind (io_lift (num_of raw_gas_esp32)) (\<lambda>x.
        io_bind (io_lift (map_value x (NInt 0) (NInt 4095) (NInt 0) (NInt 1000)))
          (\<lambda>calibrated_gas.
        let features = [temp_esp32, hum_esp32, val_of calibrated_gas] in
        io_bind (model_predict env features) (\<lambda>prediction.
        io_bind (model_predict_proba env features) (\<lambda>probability.
        io_bind (io_lift (index probability 1)) (\<lambda>p1.
        let fire_risk_percent = fmul p1 (Fin 100);
            status = status_label prediction fire_risk_percent in
        io_bind (print_line [node_id] (PrintNode node_id)) (\<lambda>_.
        io_bind (print_line [raw_gas_esp32, temp_esp32]
                   (PrintData raw_gas_esp32 calibrated_gas temp_esp32)) (\<lambda>_.
        io_bind (emit (if prediction = 1 then PrintFireDetected fire_risk_percent
                       else PrintNormal fire_risk_percent)) (\<lambda>_.
        save_to_database (db_state msg) node_id temp_esp32 hum_esp32
          calibrated_gas fire_risk_percent status)))))))))))))))
       (\<lambda>e. True)
       (\<lambda>e. emit (PrintErrorProcessing e))"

text \<open>
  \<^verbatim>\<open>client.loop_forever()\<close> calls \<^verbatim>\<open>on_message\<close> once for every delivered message,
  one after the other; an exception that leaves the callback ends the loop. The model runs
  the loop over the messages delivered so far.
\<close>

fun loop_forever :: "env \<Rightarrow> delivery list \<Rightarrow> world \<Rightarrow> py_error + world" where
  "loop_forever env [] w = Inr w"
| "loop_forever env (msg # msgs) w =
     (case on_message env msg w of
        (Inl e, w') \<Rightarrow> Inl e
      | (Inr _, w') \<Rightarrow> loop_forever env msgs w')"

section \<open>Derived notions used in the statements\<close>

text \<open>Lines 73-74 together: the value the payload decodes to, or the exception.\<close>

definition decoded :: "env \<Rightarrow> delivery \<Rightarrow> py_error + pyval" where
  "decoded env msg =
     (case payload_decode env (payload msg) of Inl e \<Rightarrow> Inl e | Inr s \<Rightarrow> json_loads env s)"

text \<open>The world after further events and further rows.\<close>

definition world_add :: "world \<Rightarrow> event list \<Rightarrow> sensor_log list \<Rightarrow> world" where
  "world_add w evs rows = w\<lparr>events := events w @ evs, sensor_logs := sensor_logs w @ rows\<rparr>"

text \<open>What handling one message adds, observed from the empty world.\<close>

definition events_of :: "env \<Rightarrow> delivery \<Rightarrow> event list" where
  "events_of env msg = events (snd (on_message env msg empty_world))"

definition rows_of :: "env \<Rightarrow> delivery \<Rightarrow> sensor_log list" where
  "rows_of env msg = sensor_logs (snd (on_message env msg empty_world))"

text \<open>
  A statement sequence is append-only when its result and what it adds to the world do
  not depend on the world it starts in.
\<close>

definition append_only :: "'a io \<Rightarrow> bool" where
  "append_only m = (\<exists>r evs rows. \<forall>w. m w = (r, world_add w evs rows))"

fun is_save_attempt :: "event \<Rightarrow> bool" where
  "is_save_attempt (SaveAttempt row) = True"
| "is_save_attempt _ = False"

fun is_model_call :: "event \<Rightarrow> bool" where
  "is_model_call (ModelPredict fs) = True"
| "is_model_call (ModelPredictProba fs) = True"
| "is_model_call _ = False"

text \<open>The real number that a finite number stands for.\<close>

fun has_value :: "pynum \<Rightarrow> real \<Rightarrow> bool" where
  "has_value (NInt i) r = (r = of_int i)"
| "has_value (NFloat (Fin a)) r = (r = a)"
| "has_value (NFloat f) r = False"

text \<open>
  The handler's calibration of a float reading, operation by operation:
  \<^verbatim>\<open>(x - 0) * (1000 - 0) / (4095 - 0) + 0\<close>.
\<close>

definition calibrate_float :: "pyfloat \<Rightarrow> pyfloat" where
  "calibrate_float x = fadd (fdiv (fmul (fsub x (Fin 0)) (Fin 1000)) (Fin 4095)) (Fin 0)"

section \<open>A concrete environment\<close>

text \<open>
  An environment to run the handler on concrete messages: a fixed table in place of the
  JSON parser, and a classifier that answers label 1 with positive-class probability
  \<open>1/4\<close> on every input. The last payload has a raw gas of \<open>1\<close> followed by 309 zeros.
\<close>

definition n1_payload :: string where
  \<open>n1_payload = ''{"node_id":"n1","raw_gas":2048,"temp":25,"humidity":40}''\<close>

definition n1_fields :: "(string \<times> pyval) list" where
  "n1_fields =
     [(''node_id'', PStr ''n1''), (''raw_gas'', PInt 2048),
      (''temp'', PInt 25), (''humidity'', PInt 40)]"

definition huge_payload :: string where
  \<open>huge_payload = ''{"raw_gas":1'' @ replicate 309 (CHR ''0'') @ ''}''\<close>

definition example_loads :: "string \<Rightarrow> py_error + pyval" where
  \<open>example_loads s =
     (if s = n1_payload then Inr (PDict n1_fields)
      else if s = ''{}'' then Inr (PDict [])
      else if s = ''{"raw_gas":5000}'' then Inr (PDict [(''raw_gas'', PInt 5000)])
      else if s = huge_payload then Inr (PDict [(''raw_gas'', PInt (10 ^ 309))])
      else if s = ''[1,2]'' then Inr (PList [PInt 1, PInt 2])
      else Inl JSONDecodeError)\<close>

definition example_env :: env where
  "example_env =
     \<lparr>payload_decode = Inr, json_loads = example_loads,
      predict = (\<lambda>fs. Inr 1), predict_proba = (\<lambda>fs. Inr [Fin (3 / 4), Fin (1 / 4)])\<rparr>"

section \<open>The spec's functions\<close>

text \<open>
  The spec's Risk Policy and Calibrator, written from the spec's words, to be compared
  with the code above.
\<close>

datatype RiskStatus = SAFE | WARNING | CRITICAL

definition classify_spec :: "bool \<Rightarrow> real \<Rightarrow> RiskStatus" where
  "classify_spec isAlarm fireRiskPercent =
     (if isAlarm then CRITICAL else if fireRiskPercent > 50 then WARNING else SAFE)"

fun status_name :: "RiskStatus \<Rightarrow> string" where
  "status_name SAFE = ''SAFE''"
| "status_name WARNING = ''WARNING''"
| "status_name CRITICAL = ''CRITICAL''"

definition calibrate_spec :: "real \<Rightarrow> real \<Rightarrow> real \<Rightarrow> real \<Rightarrow> real \<Rightarrow> real" where
  "calibrate_spec raw inMin inMax outMin outMax =
     (raw - inMin) * (outMax - outMin) / (inMax - inMin) + outMin"

section \<open>Rounding to the nearest double\<close>

lemma round_even_of_int: "round_even (of_int k) = k"
  by (simp add: round_even_def)

lemma round_even_bounds: "\<lfloor>y\<rfloor> \<le> round_even y \<and> round_even y \<le> \<lfloor>y\<rfloor> + 1"
  by (simp add: round_even_def Let_def)

lemma round_even_le: "y \<le> of_int k \<Longrightarrow> round_even y \<le> k"
proof -
  assume a: "y \<le> of_int k"
  show ?thesis
  proof (cases "y = of_int k")
    case True then show ?thesis by (simp add: round_even_of_int)
  next
    case False
    with a have "y < of_int k" by simp
    then have "\<lfloor>y\<rfloor> < k" by (simp add: floor_less_iff)
    with round_even_bounds [of y] show ?thesis by linarith
  qed
qed

lemma round_even_ge: "of_int k \<le> y \<Longrightarrow> k \<le> round_even y"
proof -
  assume "of_int k \<le> y"
  then have "k \<le> \<lfloor>y\<rfloor>" by (simp add: le_floor_iff)
  with round_even_bounds [of y] show ?thesis by linarith
qed

lemma round_even_mono: "x \<le> y \<Longrightarrow> round_even x \<le> round_even y"
proof -
  assume xy: "x \<le> y"
  then have fl: "\<lfloor>x\<rfloor> \<le> \<lfloor>y\<rfloor>" by (rule floor_mono)
  show ?thesis
  proof (cases "\<lfloor>x\<rfloor> = \<lfloor>y\<rfloor>")
    case True
    then show ?thesis using xy by (auto simp: round_even_def Let_def)
  next
    case False
    with fl have "\<lfloor>x\<rfloor> + 1 \<le> \<lfloor>y\<rfloor>" by simp
    with round_even_bounds [of x] round_even_bounds [of y] show ?thesis by linarith
  qed
qed

lemma round_even_err: "\<bar>of_int (round_even y) - y\<bar> \<le> 1 / 2"
proof -
  have "of_int \<lfloor>y\<rfloor> \<le> y" "y < of_int \<lfloor>y\<rfloor> + 1" by linarith+
  then show ?thesis by (auto simp: round_even_def Let_def)
qed

lemma round_even_minus: "round_even (- y) = - round_even y"
proof (cases "y = of_int \<lfloor>y\<rfloor>")
  case True
  then obtain k where "y = of_int k" by blast
  then show ?thesis by (simp add: round_even_of_int flip: of_int_minus)
next
  case False
  have b: "of_int \<lfloor>y\<rfloor> \<le> y" "y < of_int \<lfloor>y\<rfloor> + 1" by linarith+
  from b(1) False have lt: "of_int \<lfloor>y\<rfloor> < y" by (auto simp: less_le)
  have fm: "\<lfloor>- y\<rfloor> = - \<lfloor>y\<rfloor> - 1"
  proof (rule floor_unique)
    show "of_int (- \<lfloor>y\<rfloor> - 1) \<le> - y" using b(2) by linarith
    show "- y < of_int (- \<lfloor>y\<rfloor> - 1) + 1" using lt by linarith
  qed
  show ?thesis
    using lt b by (auto simp: round_even_def Let_def fm)
qed

lemma quantum_pos: "0 < quantum x"
  by (simp add: quantum_def)

lemma quantum_minus: "quantum (- x) = quantum x"
  by (simp add: quantum_def quantum_exp_def)

lemma float_round_minus: "float_round (- x) = - float_round x"
  by (simp add: float_round_def quantum_minus round_even_minus)

lemma float_round_0: "float_round 0 = 0"
  by (simp add: float_round_def)

lemma binade:
  assumes "x \<noteq> 0"
  shows "2 powr of_int \<lfloor>log 2 \<bar>x\<bar>\<rfloor> \<le> \<bar>x\<bar>" and "\<bar>x\<bar> < 2 powr of_int (\<lfloor>log 2 \<bar>x\<bar>\<rfloor> + 1)"
proof -
  have "0 < \<bar>x\<bar>" using assms by simp
  then have "2 powr of_int \<lfloor>log 2 \<bar>x\<bar>\<rfloor> \<le> \<bar>x\<bar> \<and> \<bar>x\<bar> < 2 powr (of_int \<lfloor>log 2 \<bar>x\<bar>\<rfloor> + 1)"
    using floor_log_eq_powr_iff [of "\<bar>x\<bar>" 2 "\<lfloor>log 2 \<bar>x\<bar>\<rfloor>"] by simp
  then show "2 powr of_int \<lfloor>log 2 \<bar>x\<bar>\<rfloor> \<le> \<bar>x\<bar>" and "\<bar>x\<bar> < 2 powr of_int (\<lfloor>log 2 \<bar>x\<bar>\<rfloor> + 1)"
    by simp_all
qed

lemma floor_log_eqI:
  assumes "2 powr of_int k \<le> \<bar>x\<bar>" and "\<bar>x\<bar> < 2 powr of_int (k + 1)"
  shows "\<lfloor>log 2 \<bar>x\<bar>\<rfloor> = k"
proof -
  have "0 < (2::real) powr of_int k" by simp
  with assms(1) have "0 < \<bar>x\<bar>" by linarith
  then show ?thesis
    using floor_log_eq_powr_iff [of "\<bar>x\<bar>" 2 k] assms by simp
qed

lemma floor_log_le:
  assumes "x \<noteq> 0" and "\<bar>x\<bar> < 2 powr of_int k"
  shows "\<lfloor>log 2 \<bar>x\<bar>\<rfloor> < k"
proof (rule ccontr)
  assume "\<not> \<lfloor>log 2 \<bar>x\<bar>\<rfloor> < k"
  then have "k \<le> \<lfloor>log 2 \<bar>x\<bar>\<rfloor>" by simp
  then have "2 powr of_int k \<le> (2::real) powr of_int \<lfloor>log 2 \<bar>x\<bar>\<rfloor>" by simp
  with binade(1) [OF assms(1)] assms(2) show False by linarith
qed

lemma floor_log_ge:
  assumes "2 powr of_int k \<le> \<bar>x\<bar>"
  shows "k \<le> \<lfloor>log 2 \<bar>x\<bar>\<rfloor>"
proof (rule ccontr)
  assume "\<not> k \<le> \<lfloor>log 2 \<bar>x\<bar>\<rfloor>"
  then have "\<lfloor>log 2 \<bar>x\<bar>\<rfloor> + 1 \<le> k" by simp
  then have le: "2 powr of_int (\<lfloor>log 2 \<bar>x\<bar>\<rfloor> + 1) \<le> (2::real) powr of_int k" by simp
  have "0 < (2::real) powr of_int k" by simp
  with assms have "x \<noteq> 0" by auto
  from binade(2) [OF this] le assms show False by linarith
qed

lemma floor_log_mono:
  assumes "x \<noteq> 0" and "\<bar>x\<bar> \<le> \<bar>y\<bar>"
  shows "\<lfloor>log 2 \<bar>x\<bar>\<rfloor> \<le> \<lfloor>log 2 \<bar>y\<bar>\<rfloor>"
  using binade(1) [OF assms(1)] assms(2) by (intro floor_log_ge) linarith

lemma powr_int_diff:
  assumes "j \<le> k"
  shows "(2::real) powr of_int k = of_int (2 ^ nat (k - j)) * 2 powr of_int j"
proof -
  have "(2::real) powr of_int k = 2 powr (of_int (k - j) + of_int j)" by simp
  also have "\<dots> = 2 powr of_int (k - j) * 2 powr of_int j" by (rule powr_add)
  also have "(2::real) powr of_int (k - j) = 2 ^ nat (k - j)"
    by (subst powr_real_of_int) (use assms in auto)
  finally show ?thesis by simp
qed

lemma grid_quotient:
  assumes "quantum_exp x \<le> k"
  shows "of_int m * 2 powr of_int k / quantum x = of_int (m * 2 ^ nat (k - quantum_exp x))"
proof -
  have "(2::real) powr of_int k = of_int (2 ^ nat (k - quantum_exp x)) * quantum x"
    unfolding quantum_def by (rule powr_int_diff [OF assms])
  then show ?thesis using quantum_pos [of x] by simp
qed

lemma float_round_grid_le:
  assumes "quantum_exp x \<le> k" and "x \<le> of_int m * 2 powr of_int k"
  shows "float_round x \<le> of_int m * 2 powr of_int k"
proof (cases "x = 0")
  case True
  with assms(2) show ?thesis by (simp add: float_round_def)
next
  case False
  let ?b = "of_int m * 2 powr of_int k"
  let ?n = "m * 2 ^ nat (k - quantum_exp x)"
  have q: "?b / quantum x = of_int ?n" by (rule grid_quotient [OF assms(1)])
  have "x / quantum x \<le> ?b / quantum x"
    using assms(2) quantum_pos [of x] by (simp add: divide_right_mono)
  then have "round_even (x / quantum x) \<le> ?n"
    unfolding q by (rule round_even_le)
  then have "of_int (round_even (x / quantum x)) * quantum x \<le> of_int ?n * quantum x"
    using quantum_pos [of x] by (simp only: mult_le_cancel_right_pos of_int_le_iff)
  also have "of_int ?n * quantum x = ?b"
    using q quantum_pos [of x] by (auto simp add: field_simps)
  finally show ?thesis using False by (simp add: float_round_def)
qed

lemma float_round_grid_ge:
  assumes "quantum_exp x \<le> k" and "of_int m * 2 powr of_int k \<le> x"
  shows "of_int m * 2 powr of_int k \<le> float_round x"
proof -
  have "quantum_exp (- x) \<le> k" using assms(1) by (simp add: quantum_exp_def)
  moreover have "- x \<le> of_int (- m) * 2 powr of_int k" using assms(2) by simp
  ultimately have "float_round (- x) \<le> of_int (- m) * 2 powr of_int k"
    by (rule float_round_grid_le)
  then show ?thesis by (simp add: float_round_minus)
qed

lemma quantum_exp_bound:
  assumes "x \<noteq> 0" and "\<bar>x\<bar> < 2 powr of_int (k + 53)" and "- 1074 \<le> k"
  shows "quantum_exp x \<le> k"
proof -
  from floor_log_le [OF assms(1,2)] have "\<lfloor>log 2 \<bar>x\<bar>\<rfloor> - 52 \<le> k" by simp
  with assms(3) show ?thesis by (simp add: quantum_exp_def)
qed

lemma float_round_on_grid_lt:
  assumes y: "y = of_int m * 2 powr of_int k" and k: "- 1074 \<le> k" and m: "\<bar>m\<bar> < 2 ^ 53"
  shows "float_round y = y"
proof (cases "y = 0")
  case True then show ?thesis by (simp add: float_round_def)
next
  case False
  have "\<bar>y\<bar> = of_int \<bar>m\<bar> * 2 powr of_int k" by (simp add: y abs_mult)
  also have "\<dots> < 2 ^ 53 * 2 powr of_int k"
  proof -
    have "(of_int \<bar>m\<bar> :: real) < of_int (2 ^ 53)" using m by (simp only: of_int_less_iff)
    then show ?thesis by simp
  qed
  also have "\<dots> = 2 powr of_int (k + 53)"
    by (simp add: powr_add)
  finally have "quantum_exp y \<le> k" using False k by (intro quantum_exp_bound)
  from float_round_grid_le [OF this, of m] float_round_grid_ge [OF this, of m]
  show ?thesis by (simp add: y)
qed

lemma float_round_on_grid:
  assumes y: "y = of_int m * 2 powr of_int k" and k: "- 1074 \<le> k" and m: "\<bar>m\<bar> \<le> 2 ^ 53"
  shows "float_round y = y"
proof (cases "\<bar>m\<bar> < 2 ^ 53")
  case True
  with y k show ?thesis by (rule float_round_on_grid_lt)
next
  case False
  with m have "\<bar>m\<bar> = 2 ^ 53" by simp
  then have "m = 2 ^ 53 \<or> m = - (2 ^ 53)" by linarith
  then have "y = of_int (if 0 \<le> m then 1 else - 1) * 2 powr of_int (k + 53)"
    by (auto simp: y powr_add)
  moreover have "- 1074 \<le> k + 53" using k by simp
  moreover have "\<bar>if 0 \<le> m then 1 else - 1 :: int\<bar> < 2 ^ 53" by simp
  ultimately show ?thesis by (rule float_round_on_grid_lt)
qed

lemma float_round_of_int:
  assumes "\<bar>n\<bar> \<le> 2 ^ 53"
  shows "float_round (of_int n) = of_int n"
  using float_round_on_grid [of "of_int n" n 0] assms by simp

lemma float_round_nonneg: "0 \<le> x \<Longrightarrow> 0 \<le> float_round x"
  using float_round_grid_ge [of x "quantum_exp x" 0] by simp

lemma float_round_nonpos: "x \<le> 0 \<Longrightarrow> float_round x \<le> 0"
  using float_round_grid_le [of x "quantum_exp x" 0] by simp

lemma float_round_mono_pos:
  assumes "0 < x" and "x \<le> y"
  shows "float_round x \<le> float_round y"
proof (cases "quantum_exp x = quantum_exp y")
  case True
  then have q: "quantum x = quantum y" by (simp add: quantum_def)
  have "x / quantum y \<le> y / quantum y"
    using assms(2) quantum_pos [of y] by (simp add: divide_right_mono)
  then have "round_even (x / quantum y) \<le> round_even (y / quantum y)"
    by (rule round_even_mono)
  then have "of_int (round_even (x / quantum y)) * quantum y
      \<le> of_int (round_even (y / quantum y)) * quantum y"
    using quantum_pos [of y] by (simp only: mult_le_cancel_right_pos of_int_le_iff)
  then show ?thesis using assms by (simp add: float_round_def q)
next
  case False
  have x0: "x \<noteq> 0" and y0: "y \<noteq> 0" using assms by auto
  have el: "\<lfloor>log 2 \<bar>x\<bar>\<rfloor> \<le> \<lfloor>log 2 \<bar>y\<bar>\<rfloor>"
    using assms by (intro floor_log_mono) auto
  with False have lt: "quantum_exp x < quantum_exp y"
    by (auto simp: quantum_exp_def max_def split: if_splits)
  have qx: "- 1074 \<le> quantum_exp x" by (simp add: quantum_exp_def)
  let ?e = "\<lfloor>log 2 \<bar>y\<bar>\<rfloor>"
  have qy: "quantum_exp y = ?e - 52"
    using lt qx by (auto simp: quantum_exp_def max_def split: if_splits)
  have ex: "\<lfloor>log 2 \<bar>x\<bar>\<rfloor> + 1 \<le> ?e"
    using lt qy by (auto simp: quantum_exp_def max_def split: if_splits)
  have "x < 2 powr of_int (\<lfloor>log 2 \<bar>x\<bar>\<rfloor> + 1)"
    using binade(2) [OF x0] assms(1) by simp
  also have "\<dots> \<le> 2 powr of_int ?e" using ex by simp
  finally have xb: "x \<le> of_int 1 * 2 powr of_int ?e" by simp
  have yb: "of_int 1 * 2 powr of_int ?e \<le> y"
    using binade(1) [OF y0] assms by simp
  have "float_round x \<le> of_int 1 * 2 powr of_int ?e"
    using lt qy xb by (intro float_round_grid_le) auto
  moreover have "of_int 1 * 2 powr of_int ?e \<le> float_round y"
    using qy yb by (intro float_round_grid_ge) auto
  ultimately show ?thesis by linarith
qed

lemma float_round_mono:
  assumes "x \<le> y"
  shows "float_round x \<le> float_round y"
proof -
  consider "0 < x" | "x \<le> 0" "0 \<le> y" | "y < 0" by linarith
  then show ?thesis
  proof cases
    case 1
    then show ?thesis using assms by (rule float_round_mono_pos)
  next
    case 2
    then show ?thesis using float_round_nonpos [of x] float_round_nonneg [of y] by linarith
  next
    case 3
    then have "0 < - y" "- y \<le> - x" using assms by auto
    then have "float_round (- y) \<le> float_round (- x)" by (rule float_round_mono_pos)
    then show ?thesis by (simp add: float_round_minus)
  qed
qed

lemma round_even_quantum_bound:
  assumes "x \<noteq> 0"
  shows "\<bar>round_even (x / quantum x)\<bar> \<le> 2 ^ 53"
proof -
  let ?e = "\<lfloor>log 2 \<bar>x\<bar>\<rfloor>"
  have "?e + 1 \<le> quantum_exp x + 53" by (simp add: quantum_exp_def)
  then have "(2::real) powr of_int (?e + 1) \<le> 2 powr of_int (quantum_exp x + 53)" by simp
  also have "\<dots> = 2 ^ 53 * quantum x" by (simp add: quantum_def powr_add)
  finally have "\<bar>x\<bar> < 2 ^ 53 * quantum x" using binade(2) [OF assms] by linarith
  then have "x \<le> 2 ^ 53 * quantum x" "- (2 ^ 53) * quantum x \<le> x"
    by linarith+
  then have up: "x / quantum x \<le> of_int (2 ^ 53)" and lo: "of_int (- (2 ^ 53)) \<le> x / quantum x"
    using quantum_pos [of x] by (simp_all add: pos_divide_le_eq pos_le_divide_eq)
  from up have "round_even (x / quantum x) \<le> 2 ^ 53" by (rule round_even_le)
  moreover from lo have "- (2 ^ 53) \<le> round_even (x / quantum x)" by (rule round_even_ge)
  ultimately show ?thesis by linarith
qed

lemma float_round_idem: "float_round (float_round x) = float_round x"
proof (cases "x = 0")
  case True then show ?thesis by (simp add: float_round_def)
next
  case False
  have "float_round x = of_int (round_even (x / quantum x)) * 2 powr of_int (quantum_exp x)"
    using False by (simp add: float_round_def quantum_def)
  moreover have "- 1074 \<le> quantum_exp x" by (simp add: quantum_exp_def)
  ultimately show ?thesis
    using round_even_quantum_bound [OF False] by (rule float_round_on_grid)
qed

lemma float_round_err: "\<bar>float_round x - x\<bar> \<le> \<bar>x\<bar> / 2 ^ 53 + 2 powr (- 1075)"
proof (cases "x = 0")
  case True then show ?thesis by (simp add: float_round_def)
next
  case False
  let ?e = "\<lfloor>log 2 \<bar>x\<bar>\<rfloor>"
  have "float_round x - x = (of_int (round_even (x / quantum x)) - x / quantum x) * quantum x"
    using False quantum_pos [of x] by (simp add: float_round_def field_simps)
  then have "\<bar>float_round x - x\<bar> = \<bar>of_int (round_even (x / quantum x)) - x / quantum x\<bar> * quantum x"
    using quantum_pos [of x] by (simp add: abs_mult)
  also have "\<dots> \<le> 1 / 2 * quantum x"
    using round_even_err [of "x / quantum x"] quantum_pos [of x]
    by (intro mult_right_mono) auto
  finally have h: "\<bar>float_round x - x\<bar> \<le> quantum x / 2" by simp
  show ?thesis
  proof (cases "- 1074 \<le> ?e - 52")
    case True
    then have "quantum x = 2 powr of_int (?e - 52)" by (simp add: quantum_def quantum_exp_def)
    also have "\<dots> = 2 powr of_int ?e / 2 ^ 52"
      by (simp add: powr_diff)
    also have "\<dots> \<le> \<bar>x\<bar> / 2 ^ 52" using binade(1) [OF False] by (simp add: divide_right_mono)
    finally have "quantum x / 2 \<le> \<bar>x\<bar> / 2 ^ 53" by simp
    moreover have "0 \<le> (2::real) powr (- 1075)" by simp
    ultimately show ?thesis using h by linarith
  next
    case False
    then have "quantum x = 2 powr (- 1074)" by (simp add: quantum_def quantum_exp_def max_def)
    also have "\<dots> = 2 * 2 powr (- 1075)"
      using powr_add [of "2::real" 1 "- 1075"] by simp
    finally have "quantum x / 2 = 2 powr (- 1075)" by simp
    moreover have "0 \<le> \<bar>x\<bar> / 2 ^ 53" by simp
    ultimately show ?thesis using h by linarith
  qed
qed

lemma round_even_below_half:
  assumes "y < of_int k + 1 / 2"
  shows "round_even y \<le> k"
proof -
  have "y < of_int k + 1" using assms by simp
  then have fl: "\<lfloor>y\<rfloor> \<le> k" by linarith
  show ?thesis
  proof (cases "\<lfloor>y\<rfloor> = k")
    case True
    then have "y - of_int \<lfloor>y\<rfloor> < 1 / 2" using assms by simp
    then show ?thesis using True by (simp add: round_even_def Let_def)
  next
    case False
    with fl have "\<lfloor>y\<rfloor> + 1 \<le> k" by simp
    with round_even_bounds [of y] show ?thesis by linarith
  qed
qed

lemma max_float_grid: "max_float = of_int (2 ^ 53 - 1) * 2 powr of_int 971"
  by (simp add: max_float_def)

lemma float_round_max_float: "float_round max_float = max_float"
  by (rule float_round_on_grid [OF max_float_grid]) simp_all

lemma max_float_less: "max_float < float_overflow"
  by (simp add: max_float_def float_overflow_def)

lemma float_round_top:
  assumes "max_float < x" and "x < float_overflow"
  shows "float_round x = max_float"
proof -
  have x0: "x \<noteq> 0" and xa: "\<bar>x\<bar> = x" using assms(1) by (simp_all add: max_float_def)
  have "2 powr of_int 1023 \<le> \<bar>x\<bar>" using assms(1) by (simp add: xa max_float_def)
  moreover have "\<bar>x\<bar> < 2 powr of_int (1023 + 1)"
    using assms(2) by (simp add: xa float_overflow_def)
  ultimately have "\<lfloor>log 2 \<bar>x\<bar>\<rfloor> = 1023" by (rule floor_log_eqI)
  then have qe: "quantum_exp x = 971" by (simp add: quantum_exp_def)
  then have q: "quantum x = 2 ^ 971" by (simp add: quantum_def)
  have "x / 2 ^ 971 < of_int (2 ^ 53 - 1) + 1 / 2"
    using assms(2) by (simp add: float_overflow_def field_simps)
  then have "round_even (x / quantum x) \<le> 2 ^ 53 - 1"
    unfolding q by (rule round_even_below_half)
  moreover have "of_int (2 ^ 53 - 1) \<le> x / 2 ^ 971"
    using assms(1) by (simp add: max_float_def field_simps)
  then have "2 ^ 53 - 1 \<le> round_even (x / quantum x)"
    unfolding q by (rule round_even_ge)
  ultimately have "round_even (x / quantum x) = 2 ^ 53 - 1" by linarith
  then show ?thesis using x0 by (simp add: float_round_def q max_float_def)
qed

lemma float_round_le_max:
  assumes "x < float_overflow"
  shows "float_round x \<le> max_float"
proof (cases "x \<le> max_float")
  case True
  then have "float_round x \<le> float_round max_float" by (rule float_round_mono)
  then show ?thesis by (simp add: float_round_max_float)
next
  case False
  then show ?thesis using assms float_round_top [of x] by simp
qed

lemma float_round_in_range:
  assumes "\<bar>x\<bar> < float_overflow"
  shows "\<bar>float_round x\<bar> < float_overflow"
proof -
  have "float_round x \<le> max_float" using assms by (intro float_round_le_max) simp
  moreover have "float_round (- x) \<le> max_float" using assms by (intro float_round_le_max) simp
  ultimately show ?thesis using max_float_less by (simp add: float_round_minus abs_less_iff)
qed

section \<open>The operations on floats\<close>

lemma float_overflow_gt: "2 ^ 53 < float_overflow"
  by (simp add: float_overflow_def)

lemma to_float_in_range:
  assumes "\<bar>x\<bar> < float_overflow"
  shows "to_float x = Fin (float_round x)"
  using assms by (auto simp: to_float_def)

lemma to_float_of_int:
  assumes "\<bar>n\<bar> \<le> 2 ^ 53"
  shows "to_float (of_int n) = Fin (of_int n)"
proof -
  have "\<bar>real_of_int n\<bar> \<le> 2 ^ 53" using assms by (metis of_int_abs of_int_le_iff of_int_numeral of_int_power)
  then have "\<bar>real_of_int n\<bar> < float_overflow" using float_overflow_gt by linarith
  then show ?thesis by (simp add: to_float_in_range float_round_of_int [OF assms])
qed

lemma to_float_rounded:
  assumes "\<bar>x\<bar> < float_overflow"
  shows "to_float (float_round x) = Fin (float_round x)"
  using float_round_in_range [OF assms] by (simp add: to_float_in_range float_round_idem)

lemma to_float_mono:
  assumes "x \<le> y"
  shows "fle (to_float x) (to_float y)"
proof -
  have "0 < float_overflow" by (simp add: float_overflow_def)
  then show ?thesis
    using assms float_round_mono [OF assms] by (auto simp: to_float_def)
qed

lemma fle_to_float_ends: "fle NegInf (to_float x)" "fle (to_float x) PosInf"
  by (simp_all add: to_float_def)

lemma fle_Fin_between:
  assumes "fle (Fin a) f" and "fle f (Fin b)"
  shows "\<exists>v. f = Fin v \<and> a \<le> v \<and> v \<le> b"
  using assms by (cases f) auto

lemma fle_trans: "fle a b \<Longrightarrow> fle b c \<Longrightarrow> fle a c"
  by (cases a; cases b; cases c) auto

lemma fadd_mono:
  assumes "fle x y"
  shows "fle (fadd x (Fin c)) (fadd y (Fin c))"
  using assms by (cases x; cases y) (auto intro: to_float_mono simp: fle_to_float_ends)

lemma fmul_mono:
  assumes "fle x y" and "0 < c"
  shows "fle (fmul x (Fin c)) (fmul y (Fin c))"
proof (cases x; cases y)
  fix a b assume "x = Fin a" "y = Fin b"
  then show ?thesis using assms by (auto intro!: to_float_mono)
qed (use assms in \<open>auto simp: to_float_def\<close>)

lemma fdiv_mono:
  assumes "fle x y" and "0 < c"
  shows "fle (fdiv x (Fin c)) (fdiv y (Fin c))"
proof (cases x; cases y)
  fix a b assume "x = Fin a" "y = Fin b"
  then show ?thesis using assms by (auto intro!: to_float_mono simp: divide_right_mono)
qed (use assms in \<open>auto simp: to_float_def\<close>)

lemma fsub_zero: "fsub x (Fin 0) = fadd x (Fin 0)"
  by (simp add: fsub_def)

lemma calibrate_float_mono:
  assumes "fle x y"
  shows "fle (calibrate_float x) (calibrate_float y)"
  unfolding calibrate_float_def fsub_zero
  by (intro fadd_mono fdiv_mono fmul_mono assms) simp_all

lemma calibrate_float_0: "calibrate_float (Fin 0) = Fin 0"
  using to_float_of_int [of 0] by (simp add: calibrate_float_def fsub_def)

lemma calibrate_float_4095: "calibrate_float (Fin 4095) = Fin 1000"
  using to_float_of_int [of 4095] to_float_of_int [of 4095000] to_float_of_int [of 1000]
  by (simp add: calibrate_float_def fsub_def)

section \<open>The calibration\<close>

lemma int_to_float_small:
  assumes "\<bar>n\<bar> \<le> 2 ^ 53"
  shows "int_to_float n = Inr (Fin (of_int n))"
proof -
  have "\<bar>real_of_int n\<bar> \<le> 2 ^ 53" using assms by (metis of_int_abs of_int_le_iff of_int_numeral of_int_power)
  then have "\<bar>real_of_int n\<bar> < float_overflow" using float_overflow_gt by linarith
  then show ?thesis by (simp add: int_to_float_def float_round_of_int [OF assms])
qed

lemma int_to_float_consts:
  "int_to_float 0 = Inr (Fin 0)" "int_to_float 1000 = Inr (Fin 1000)"
  "int_to_float 4095 = Inr (Fin 4095)"
  using int_to_float_small [of 0] int_to_float_small [of 1000] int_to_float_small [of 4095]
  by simp_all

lemma map_value_float_consts:
  "map_value (NFloat f) (NInt 0) (NInt 4095) (NInt 0) (NInt 1000) = Inr (NFloat (calibrate_float f))"
  by (simp add: map_value_def bind_err_def float_op_def int_to_float_consts calibrate_float_def)

lemma map_value_ints:
  "map_value (NInt x) (NInt a) (NInt b) (NInt c) (NInt d) =
     (if a = b then Inl ZeroDivisionError
      else if float_overflow \<le> \<bar>of_int ((x - a) * (d - c)) / of_int (b - a)\<bar> then Inl OverflowError
      else bind_err (int_to_float c) (\<lambda>fc.
             Inr (NFloat (fadd (Fin (float_round (of_int ((x - a) * (d - c)) / of_int (b - a)))) fc))))"
  by (simp add: map_value_def bind_err_def float_op_def)

lemma map_value_int_consts:
  "map_value (NInt i) (NInt 0) (NInt 4095) (NInt 0) (NInt 1000) =
     (if float_overflow \<le> \<bar>of_int i * 1000 / 4095\<bar> then Inl OverflowError
      else Inr (NFloat (Fin (float_round (of_int i * 1000 / 4095)))))"
proof (cases "float_overflow \<le> \<bar>real_of_int i * 1000 / 4095\<bar>")
  case True
  then show ?thesis by (simp add: map_value_ints)
next
  case False
  then have r: "\<bar>real_of_int i * 1000 / 4095\<bar> < float_overflow" by simp
  have "fadd (Fin (float_round (of_int i * 1000 / 4095))) (Fin 0)
      = Fin (float_round (of_int i * 1000 / 4095))"
    using to_float_rounded [OF r] by simp
  then show ?thesis using False
    by (simp add: map_value_ints bind_err_def int_to_float_consts)
qed

lemma calibrate_float_of_int:
  assumes "\<bar>i * 1000\<bar> \<le> 2 ^ 53"
  shows "calibrate_float (Fin (of_int i)) = Fin (float_round (of_int i * 1000 / 4095))"
proof -
  have i: "\<bar>i\<bar> \<le> 2 ^ 53" using assms by linarith
  have 1: "to_float (of_int i) = Fin (of_int i)" by (rule to_float_of_int [OF i])
  have 2: "to_float (of_int i * 1000) = Fin (of_int i * 1000)"
    using to_float_of_int [OF assms] by simp
  have "\<bar>real_of_int (i * 1000)\<bar> \<le> 2 ^ 53"
    using assms by (metis of_int_abs of_int_le_iff of_int_numeral of_int_power)
  then have "\<bar>real_of_int i * 1000 / 4095\<bar> \<le> 2 ^ 53" by simp
  then have r: "\<bar>real_of_int i * 1000 / 4095\<bar> < float_overflow"
    using float_overflow_gt by linarith
  have 3: "to_float (of_int i * 1000 / 4095) = Fin (float_round (of_int i * 1000 / 4095))"
    by (rule to_float_in_range [OF r])
  show ?thesis
    using to_float_rounded [OF r] 1 2 3 by (simp add: calibrate_float_def fsub_def)
qed

lemma map_value_in_range:
  assumes "has_value x r" and "0 \<le> r" and "r \<le> 4095"
  shows "map_value x (NInt 0) (NInt 4095) (NInt 0) (NInt 1000) = Inr (NFloat (calibrate_float (Fin r)))"
proof (cases x)
  case (NFloat f)
  with assms(1) have "f = Fin r" by (cases f) auto
  then show ?thesis by (simp add: NFloat map_value_float_consts)
next
  case (NInt i)
  with assms have r: "r = of_int i" and i: "0 \<le> i" "i \<le> 4095" by auto
  have small: "\<bar>i * 1000\<bar> \<le> 2 ^ 53" using i by simp
  have "\<bar>real_of_int (i * 1000)\<bar> \<le> 2 ^ 53"
    using small by (metis of_int_abs of_int_le_iff of_int_numeral of_int_power)
  then have "\<bar>real_of_int i * 1000 / 4095\<bar> \<le> 2 ^ 53" by simp
  then have "\<not> float_overflow \<le> \<bar>real_of_int i * 1000 / 4095\<bar>"
    using float_overflow_gt by linarith
  then show ?thesis
    by (simp add: NInt r map_value_int_consts calibrate_float_of_int [OF small])
qed

section \<open>How the handler runs\<close>

lemma world_add_nil: "world_add w [] [] = w"
  by (simp add: world_add_def)

lemma world_add_assoc: "world_add (world_add w e1 r1) e2 r2 = world_add w (e1 @ e2) (r1 @ r2)"
  by (simp add: world_add_def)

lemma append_onlyI: "(\<And>w. m w = (r, world_add w evs rows)) \<Longrightarrow> append_only m"
  unfolding append_only_def by blast

lemma append_only_lift: "append_only (io_lift r)"
  by (rule append_onlyI [of _ r "[]" "[]"]) (simp add: io_lift_def world_add_nil)

lemma append_only_raise: "append_only (io_raise e)"
  by (rule append_onlyI [of _ "Inl e" "[]" "[]"]) (simp add: io_raise_def world_add_nil)

lemma append_only_emit: "append_only (emit ev)"
  by (rule append_onlyI [of _ "Inr ()" "[ev]" "[]"]) (simp add: emit_def world_add_def)

lemma append_only_bind:
  assumes m: "append_only m" and f: "\<And>x. append_only (f x)"
  shows "append_only (io_bind m f)"
proof -
  from m obtain r evs rows where mw: "\<And>w. m w = (r, world_add w evs rows)"
    unfolding append_only_def by blast
  show ?thesis
  proof (cases r)
    case (Inl e)
    have "\<And>w. io_bind m f w = (Inl e, world_add w evs rows)"
      by (simp add: io_bind_def mw Inl)
    then show ?thesis by (rule append_onlyI)
  next
    case (Inr x)
    from f [of x] obtain r' evs' rows' where fw: "\<And>w. f x w = (r', world_add w evs' rows')"
      unfolding append_only_def by blast
    have "\<And>w. io_bind m f w = (r', world_add w (evs @ evs') (rows @ rows'))"
      by (simp add: io_bind_def mw Inr fw world_add_assoc)
    then show ?thesis by (rule append_onlyI)
  qed
qed

lemma append_only_try:
  assumes m: "append_only body" and h: "\<And>e. append_only (handler e)"
  shows "append_only (io_try body catches handler)"
proof -
  from m obtain r evs rows where mw: "\<And>w. body w = (r, world_add w evs rows)"
    unfolding append_only_def by blast
  show ?thesis
  proof (cases r)
    case (Inr x)
    have "\<And>w. io_try body catches handler w = (Inr x, world_add w evs rows)"
      by (simp add: io_try_def mw Inr)
    then show ?thesis by (rule append_onlyI)
  next
    case (Inl e)
    show ?thesis
    proof (cases "catches e")
      case False
      have "\<And>w. io_try body catches handler w = (Inl e, world_add w evs rows)"
        by (simp add: io_try_def mw Inl False)
      then show ?thesis by (rule append_onlyI)
    next
      case True
      from h [of e] obtain r' evs' rows' where hw: "\<And>w. handler e w = (r', world_add w evs' rows')"
        unfolding append_only_def by blast
      have "\<And>w. io_try body catches handler w = (r', world_add w (evs @ evs') (rows @ rows'))"
        by (simp add: io_try_def mw Inl True hw world_add_assoc)
      then show ?thesis by (rule append_onlyI)
    qed
  qed
qed

lemma append_only_print: "append_only (print_line vs ev)"
  unfolding print_line_def by (simp add: append_only_emit append_only_raise)

lemma append_only_insert: "append_only (mysql_insert db row)"
proof (cases db)
  case None
  have "\<And>w. mysql_insert db row w = (Inr (), world_add w [SaveAttempt row] [row])"
    by (simp add: mysql_insert_def io_bind_def emit_def world_add_def None)
  then show ?thesis by (rule append_onlyI)
next
  case (Some e)
  have "\<And>w. mysql_insert db row w = (Inl e, world_add w [SaveAttempt row] [])"
    by (simp add: mysql_insert_def io_bind_def emit_def io_raise_def world_add_def Some)
  then show ?thesis by (rule append_onlyI)
qed

lemma append_only_save: "append_only (save_to_database db node temp hum smoke risk status)"
  unfolding save_to_database_def
  by (intro append_only_try append_only_bind append_only_insert append_only_emit
        append_only_print)

lemma append_only_predict: "append_only (model_predict env fs)"
  unfolding model_predict_def
  by (intro append_only_bind append_only_emit append_only_lift)

lemma append_only_predict_proba: "append_only (model_predict_proba env fs)"
  unfolding model_predict_proba_def
  by (intro append_only_bind append_only_emit append_only_lift)

lemma append_only_on_message: "append_only (on_message env msg)"
  unfolding on_message_def Let_def
  by (intro append_only_try append_only_bind append_only_lift append_only_emit
        append_only_print append_only_predict append_only_predict_proba append_only_save)

lemma io_try_all_returns:
  assumes "\<And>e w. fst (handler e w) = Inr ()"
  shows "fst (io_try body (\<lambda>e. True) handler w) = Inr ()"
  using assms by (simp add: io_try_def split: prod.splits sum.splits)

lemma on_message_returns: "fst (on_message env msg w) = Inr ()"
  unfolding on_message_def by (rule io_try_all_returns) (simp add: emit_def)

lemma on_message_extend:
  "on_message env msg w = (Inr (), world_add w (events_of env msg) (rows_of env msg))"
proof -
  from append_only_on_message [of env msg]
  obtain r evs rows where ow: "\<And>w. on_message env msg w = (r, world_add w evs rows)"
    unfolding append_only_def by blast
  have "r = Inr ()" using on_message_returns [of env msg w] by (simp add: ow)
  moreover have "events_of env msg = evs"
    by (simp add: events_of_def ow world_add_def empty_world_def)
  moreover have "rows_of env msg = rows"
    by (simp add: rows_of_def ow world_add_def empty_world_def)
  ultimately show ?thesis by (simp add: ow)
qed

lemma loop_forever_extend:
  "loop_forever env msgs w =
     Inr (world_add w (concat (map (events_of env) msgs)) (concat (map (rows_of env) msgs)))"
  by (induction msgs arbitrary: w) (simp_all add: world_add_nil on_message_extend world_add_assoc)

lemma decoded_Inr:
  assumes "decoded env msg = Inr d"
  shows "\<exists>s. payload_decode env (payload msg) = Inr s \<and> json_loads env s = Inr d"
  using assms by (simp add: decoded_def split: sum.splits)

lemma decoded_Inl:
  assumes "decoded env msg = Inl e"
  shows "on_message env msg w = (Inr (), world_add w [PrintErrorProcessing e] [])"
  using assms
  by (auto simp: decoded_def on_message_def io_try_def io_bind_def io_lift_def emit_def world_add_def
      split: sum.splits)

lemma observed:
  assumes "on_message env msg empty_world = (r, world_add empty_world evs rows)"
  shows "events_of env msg = evs \<and> rows_of env msg = rows"
  using assms by (simp add: events_of_def rows_of_def world_add_def empty_world_def)

lemma num_of_printable: "num_of v = Inr n \<Longrightarrow> printable v"
  by (cases v) auto

lemma save_to_database_run:
  "save_to_database db node temp hum smoke risk status w =
     (let row = \<lparr>node_id = node, temp_val = temp, humidity_val = hum,
                 smoke_level = smoke, fire_risk = risk, alert_status = status\<rparr>
      in case db of
           None \<Rightarrow>
             if printable node then (Inr (), world_add w [SaveAttempt row, PrintSaved node] [row])
             else (Inl UnicodeEncodeError, world_add w [SaveAttempt row] [row])
         | Some e \<Rightarrow>
             if is_mysql_error e then (Inr (), world_add w [SaveAttempt row, PrintDatabaseError e] [])
             else (Inl e, world_add w [SaveAttempt row] []))"
  by (simp add: save_to_database_def mysql_insert_def io_try_def io_bind_def io_raise_def
      print_line_def emit_def world_add_def Let_def split: option.splits)

lemma on_message_not_dict:
  assumes "decoded env msg = Inr d" and "\<not> is_dict d"
  shows "on_message env msg w = (Inr (), world_add w [PrintErrorProcessing AttributeError] [])"
proof -
  from assms(1) obtain s where s: "payload_decode env (payload msg) = Inr s" "json_loads env s = Inr d"
    using decoded_Inr by blast
  have g: "dict_get d ''node_id'' (PStr ''node_unknown'') = Inl AttributeError"
    using assms(2) by (cases d) simp_all
  show ?thesis
    by (simp add: on_message_def io_try_def io_bind_def io_lift_def emit_def world_add_def s g)
qed

lemma on_message_not_number:
  assumes dec: "decoded env msg = Inr (PDict kvs)"
    and num: "num_of (get_or kvs ''raw_gas'' (PInt 0)) = Inl e"
  shows "on_message env msg w = (Inr (), world_add w [PrintErrorProcessing e] [])"
proof -
  from dec obtain s where s: "payload_decode env (payload msg) = Inr s" "json_loads env s = Inr (PDict kvs)"
    using decoded_Inr by blast
  show ?thesis
    by (simp add: on_message_def io_try_def io_bind_def io_lift_def emit_def world_add_def s num)
qed

lemma on_message_calibration_fails:
  assumes dec: "decoded env msg = Inr (PDict kvs)"
    and num: "num_of (get_or kvs ''raw_gas'' (PInt 0)) = Inr x"
    and cal: "map_value x (NInt 0) (NInt 4095) (NInt 0) (NInt 1000) = Inl e"
  shows "on_message env msg w = (Inr (), world_add w [PrintErrorProcessing e] [])"
proof -
  from dec obtain s where s: "payload_decode env (payload msg) = Inr s" "json_loads env s = Inr (PDict kvs)"
    using decoded_Inr by blast
  show ?thesis
    by (simp add: on_message_def io_try_def io_bind_def io_lift_def emit_def world_add_def s num cal)
qed

lemma on_message_predict_fails:
  assumes dec: "decoded env msg = Inr (PDict kvs)"
    and num: "num_of (get_or kvs ''raw_gas'' (PInt 0)) = Inr x"
    and cal: "map_value x (NInt 0) (NInt 4095) (NInt 0) (NInt 1000) = Inr g"
    and fs: "fs = [get_or kvs ''temp'' (PInt 0), get_or kvs ''humidity'' (PInt 50), val_of g]"
    and lab: "predict env fs = Inl e"
  shows "on_message env msg w =
     (Inr (), world_add w [ModelPredict fs, PrintErrorProcessing e] [])"
proof -
  from dec obtain s where s: "payload_decode env (payload msg) = Inr s" "json_loads env s = Inr (PDict kvs)"
    using decoded_Inr by blast
  show ?thesis
    unfolding on_message_def fs using lab
    by (simp add: io_try_def io_bind_def io_lift_def emit_def world_add_def s num cal fs
        model_predict_def Let_def)
qed

lemma on_message_predict_proba_fails:
  assumes dec: "decoded env msg = Inr (PDict kvs)"
    and num: "num_of (get_or kvs ''raw_gas'' (PInt 0)) = Inr x"
    and cal: "map_value x (NInt 0) (NInt 4095) (NInt 0) (NInt 1000) = Inr g"
    and fs: "fs = [get_or kvs ''temp'' (PInt 0), get_or kvs ''humidity'' (PInt 50), val_of g]"
    and lab: "predict env fs = Inr label"
    and pro: "predict_proba env fs = Inl e"
  shows "on_message env msg w =
     (Inr (), world_add w [ModelPredict fs, ModelPredictProba fs, PrintErrorProcessing e] [])"
proof -
  from dec obtain s where s: "payload_decode env (payload msg) = Inr s" "json_loads env s = Inr (PDict kvs)"
    using decoded_Inr by blast
  show ?thesis
    unfolding on_message_def fs using lab pro
    by (simp add: io_try_def io_bind_def io_lift_def emit_def world_add_def s num cal fs
        model_predict_def model_predict_proba_def Let_def)
qed

lemma on_message_print_fails:
  assumes dec: "decoded env msg = Inr (PDict kvs)"
    and num: "num_of (get_or kvs ''raw_gas'' (PInt 0)) = Inr x"
    and cal: "map_value x (NInt 0) (NInt 4095) (NInt 0) (NInt 1000) = Inr g"
    and fs: "fs = [get_or kvs ''temp'' (PInt 0), get_or kvs ''humidity'' (PInt 50), val_of g]"
    and lab: "predict env fs = Inr label"
    and pro: "predict_proba env fs = Inr row"
    and len: "1 < length row"
    and node: "\<not> printable (get_or kvs ''node_id'' (PStr ''node_unknown''))"
  shows "on_message env msg w =
     (Inr (), world_add w
        [ModelPredict fs, ModelPredictProba fs, PrintErrorProcessing UnicodeEncodeError] [])"
proof -
  from dec obtain s where s: "payload_decode env (payload msg) = Inr s" "json_loads env s = Inr (PDict kvs)"
    using decoded_Inr by blast
  have ix: "index row 1 = Inr (row ! 1)" using len by (simp add: index_def)
  show ?thesis
    unfolding on_message_def fs using lab pro ix node
    by (simp add: io_try_def io_bind_def io_lift_def io_raise_def emit_def print_line_def
        world_add_def s num cal fs model_predict_def model_predict_proba_def Let_def)
qed

lemma on_message_processed:
  assumes dec: "decoded env msg = Inr (PDict kvs)"
    and num: "num_of (get_or kvs ''raw_gas'' (PInt 0)) = Inr x"
    and cal: "map_value x (NInt 0) (NInt 4095) (NInt 0) (NInt 1000) = Inr g"
    and fs: "fs = [get_or kvs ''temp'' (PInt 0), get_or kvs ''humidity'' (PInt 50), val_of g]"
    and lab: "predict env fs = Inr label"
    and pro: "predict_proba env fs = Inr row"
    and len: "1 < length row"
    and node: "printable (get_or kvs ''node_id'' (PStr ''node_unknown''))"
    and temp: "printable (get_or kvs ''temp'' (PInt 0))"
    and R: "R = \<lparr>node_id = get_or kvs ''node_id'' (PStr ''node_unknown''),
                 temp_val = get_or kvs ''temp'' (PInt 0),
                 humidity_val = get_or kvs ''humidity'' (PInt 50),
                 smoke_level = g, fire_risk = fmul (row ! 1) (Fin 100),
                 alert_status = status_label label (fmul (row ! 1) (Fin 100))\<rparr>"
  shows "on_message env msg w =
     (Inr (), world_add w
        ([ModelPredict fs, ModelPredictProba fs,
          PrintNode (get_or kvs ''node_id'' (PStr ''node_unknown'')),
          PrintData (get_or kvs ''raw_gas'' (PInt 0)) g (get_or kvs ''temp'' (PInt 0)),
          (if label = 1 then PrintFireDetected (fmul (row ! 1) (Fin 100))
           else PrintNormal (fmul (row ! 1) (Fin 100))),
          SaveAttempt R] @
         (case db_state msg of
            None \<Rightarrow> [PrintSaved (get_or kvs ''node_id'' (PStr ''node_unknown''))]
          | Some e \<Rightarrow> [if is_mysql_error e then PrintDatabaseError e else PrintErrorProcessing e]))
        (case db_state msg of None \<Rightarrow> [R] | Some e \<Rightarrow> []))"
proof -
  from dec obtain s where s: "payload_decode env (payload msg) = Inr s" "json_loads env s = Inr (PDict kvs)"
    using decoded_Inr by blast
  have ix: "index row 1 = Inr (row ! 1)" using len by (simp add: index_def)
  have raw: "printable (get_or kvs ''raw_gas'' (PInt 0))" by (rule num_of_printable [OF num])
  show ?thesis
    unfolding on_message_def fs R
    using lab pro ix node temp raw
    by (simp add: io_try_def io_bind_def io_lift_def emit_def print_line_def world_add_def s num
        cal fs model_predict_def model_predict_proba_def save_to_database_run Let_def
        split: option.splits)
qed

lemma processed_events:
  assumes dec: "decoded env msg = Inr (PDict kvs)"
    and num: "num_of (get_or kvs ''raw_gas'' (PInt 0)) = Inr x"
    and cal: "map_value x (NInt 0) (NInt 4095) (NInt 0) (NInt 1000) = Inr g"
    and fs: "fs = [get_or kvs ''temp'' (PInt 0), get_or kvs ''humidity'' (PInt 50), val_of g]"
    and lab: "predict env fs = Inr label"
    and pro: "predict_proba env fs = Inr row"
    and len: "1 < length row"
    and node: "printable (get_or kvs ''node_id'' (PStr ''node_unknown''))"
    and temp: "printable (get_or kvs ''temp'' (PInt 0))"
    and R: "R = \<lparr>node_id = get_or kvs ''node_id'' (PStr ''node_unknown''),
                 temp_val = get_or kvs ''temp'' (PInt 0),
                 humidity_val = get_or kvs ''humidity'' (PInt 50),
                 smoke_level = g, fire_risk = fmul (row ! 1) (Fin 100),
                 alert_status = status_label label (fmul (row ! 1) (Fin 100))\<rparr>"
  shows "events_of env msg =
        [ModelPredict fs, ModelPredictProba fs,
          PrintNode (get_or kvs ''node_id'' (PStr ''node_unknown'')),
          PrintData (get_or kvs ''raw_gas'' (PInt 0)) g (get_or kvs ''temp'' (PInt 0)),
          (if label = 1 then PrintFireDetected (fmul (row ! 1) (Fin 100))
           else PrintNormal (fmul (row ! 1) (Fin 100))),
          SaveAttempt R] @
         (case db_state msg of
            None \<Rightarrow> [PrintSaved (get_or kvs ''node_id'' (PStr ''node_unknown''))]
          | Some e \<Rightarrow> [if is_mysql_error e then PrintDatabaseError e else PrintErrorProcessing e])
     \<and> rows_of env msg = (case db_state msg of None \<Rightarrow> [R] | Some e \<Rightarrow> [])"
  by (rule observed) (rule on_message_processed [OF assms])

lemma on_message_index_fails:
  assumes dec: "decoded env msg = Inr (PDict kvs)"
    and num: "num_of (get_or kvs ''raw_gas'' (PInt 0)) = Inr x"
    and cal: "map_value x (NInt 0) (NInt 4095) (NInt 0) (NInt 1000) = Inr g"
    and fs: "fs = [get_or kvs ''temp'' (PInt 0), get_or kvs ''humidity'' (PInt 50), val_of g]"
    and lab: "predict env fs = Inr label"
    and pro: "predict_proba env fs = Inr row"
    and len: "\<not> 1 < length row"
  shows "on_message env msg w =
     (Inr (), world_add w
        [ModelPredict fs, ModelPredictProba fs, PrintErrorProcessing IndexError] [])"
proof -
  from dec obtain s where s: "payload_decode env (payload msg) = Inr s" "json_loads env s = Inr (PDict kvs)"
    using decoded_Inr by blast
  have ix: "index row 1 = Inl IndexError" using len by (simp add: index_def)
  show ?thesis
    unfolding on_message_def fs using lab pro ix
    by (simp add: io_try_def io_bind_def io_lift_def io_raise_def emit_def print_line_def
        world_add_def s num cal fs model_predict_def model_predict_proba_def Let_def)
qed

lemma on_message_print_temp_fails:
  assumes dec: "decoded env msg = Inr (PDict kvs)"
    and num: "num_of (get_or kvs ''raw_gas'' (PInt 0)) = Inr x"
    and cal: "map_value x (NInt 0) (NInt 4095) (NInt 0) (NInt 1000) = Inr g"
    and fs: "fs = [get_or kvs ''temp'' (PInt 0), get_or kvs ''humidity'' (PInt 50), val_of g]"
    and lab: "predict env fs = Inr label"
    and pro: "predict_proba env fs = Inr row"
    and len: "1 < length row"
    and node: "printable (get_or kvs ''node_id'' (PStr ''node_unknown''))"
    and temp: "\<not> printable (get_or kvs ''temp'' (PInt 0))"
  shows "on_message env msg w =
     (Inr (), world_add w
        [ModelPredict fs, ModelPredictProba fs,
         PrintNode (get_or kvs ''node_id'' (PStr ''node_unknown'')),
         PrintErrorProcessing UnicodeEncodeError] [])"
proof -
  from dec obtain s where s: "payload_decode env (payload msg) = Inr s" "json_loads env s = Inr (PDict kvs)"
    using decoded_Inr by blast
  have ix: "index row 1 = Inr (row ! 1)" using len by (simp add: index_def)
  show ?thesis
    unfolding on_message_def fs using lab pro ix node temp
    by (simp add: io_try_def io_bind_def io_lift_def io_raise_def emit_def print_line_def
        world_add_def s num cal fs model_predict_def model_predict_proba_def Let_def)
qed

text \<open>
  Every way a message can go once it is calibrated: the events start with the first
  classifier call, and either an error is logged and nothing is saved, or the message is
  processed to the sink.
\<close>

lemma on_message_calibrated_cases:
  assumes dec: "decoded env msg = Inr (PDict kvs)"
    and num: "num_of (get_or kvs ''raw_gas'' (PInt 0)) = Inr x"
    and cal: "map_value x (NInt 0) (NInt 4095) (NInt 0) (NInt 1000) = Inr g"
    and fs: "fs = [get_or kvs ''temp'' (PInt 0), get_or kvs ''humidity'' (PInt 50), val_of g]"
  shows "(\<exists>e. events_of env msg = [ModelPredict fs, PrintErrorProcessing e] \<and> rows_of env msg = []
            \<and> predict env fs = Inl e)
       \<or> (\<exists>e. events_of env msg = [ModelPredict fs, ModelPredictProba fs, PrintErrorProcessing e]
            \<and> rows_of env msg = [])
       \<or> (\<exists>e. events_of env msg = [ModelPredict fs, ModelPredictProba fs,
               PrintNode (get_or kvs ''node_id'' (PStr ''node_unknown'')), PrintErrorProcessing e]
            \<and> rows_of env msg = [])
       \<or> (\<exists>label row R. predict env fs = Inr label
            \<and> R = \<lparr>node_id = get_or kvs ''node_id'' (PStr ''node_unknown''),
                 temp_val = get_or kvs ''temp'' (PInt 0),
                 humidity_val = get_or kvs ''humidity'' (PInt 50),
                 smoke_level = g, fire_risk = fmul (row ! 1) (Fin 100),
                 alert_status = status_label label (fmul (row ! 1) (Fin 100))\<rparr>
            \<and> events_of env msg =
                [ModelPredict fs, ModelPredictProba fs,
                 PrintNode (get_or kvs ''node_id'' (PStr ''node_unknown'')),
                 PrintData (get_or kvs ''raw_gas'' (PInt 0)) g (get_or kvs ''temp'' (PInt 0)),
                 (if label = 1 then PrintFireDetected (fmul (row ! 1) (Fin 100))
                  else PrintNormal (fmul (row ! 1) (Fin 100))),
                 SaveAttempt R] @
                (case db_state msg of
                   None \<Rightarrow> [PrintSaved (get_or kvs ''node_id'' (PStr ''node_unknown''))]
                 | Some e \<Rightarrow> [if is_mysql_error e then PrintDatabaseError e
                              else PrintErrorProcessing e])
            \<and> rows_of env msg = (case db_state msg of None \<Rightarrow> [R] | Some e \<Rightarrow> []))"
proof (cases "predict env fs")
  case (Inl e)
  from observed [OF on_message_predict_fails [OF dec num cal fs Inl]] Inl
  show ?thesis by blast
next
  case lab: (Inr label)
  show ?thesis
  proof (cases "predict_proba env fs")
    case (Inl e)
    from observed [OF on_message_predict_proba_fails [OF dec num cal fs lab Inl]]
    show ?thesis by blast
  next
    case pro: (Inr row)
    show ?thesis
    proof (cases "1 < length row")
      case False
      from observed [OF on_message_index_fails [OF dec num cal fs lab pro False]]
      show ?thesis by blast
    next
      case len: True
      show ?thesis
      proof (cases "printable (get_or kvs ''node_id'' (PStr ''node_unknown''))")
        case False
        from observed [OF on_message_print_fails [OF dec num cal fs lab pro len False]]
        show ?thesis by blast
      next
        case node: True
        show ?thesis
        proof (cases "printable (get_or kvs ''temp'' (PInt 0))")
          case False
          from observed [OF on_message_print_temp_fails [OF dec num cal fs lab pro len node False]]
          show ?thesis by blast
        next
          case temp: True
          from processed_events [OF dec num cal fs lab pro len node temp refl] lab
          show ?thesis by blast
        qed
      qed
    qed
  qed
qed

lemma on_message_classifier_called:
  assumes dec: "decoded env msg = Inr (PDict kvs)"
    and num: "num_of (get_or kvs ''raw_gas'' (PInt 0)) = Inr x"
    and cal: "map_value x (NInt 0) (NInt 4095) (NInt 0) (NInt 1000) = Inr g"
    and fs: "fs = [get_or kvs ''temp'' (PInt 0), get_or kvs ''humidity'' (PInt 50), val_of g]"
  shows "(\<exists>rest. events_of env msg = ModelPredict fs # rest)
         \<and> filter is_model_call (events_of env msg) \<in> {[ModelPredict fs], [ModelPredict fs, ModelPredictProba fs]}"
  using on_message_calibrated_cases [OF assms]
  by (elim disjE exE conjE) (simp_all split: option.splits)

lemma alarm_rows_critical:
  assumes dec: "decoded env msg = Inr (PDict kvs)"
    and num: "num_of (get_or kvs ''raw_gas'' (PInt 0)) = Inr x"
    and cal: "map_value x (NInt 0) (NInt 4095) (NInt 0) (NInt 1000) = Inr g"
    and fs: "fs = [get_or kvs ''temp'' (PInt 0), get_or kvs ''humidity'' (PInt 50), val_of g]"
    and lab: "predict env fs = Inr 1"
  shows "(\<forall>R. SaveAttempt R \<in> set (events_of env msg) \<longrightarrow> alert_status R = ''CRITICAL'')
       \<and> (\<forall>R. R \<in> set (rows_of env msg) \<longrightarrow> alert_status R = ''CRITICAL'')
       \<and> (\<forall>r. PrintNormal r \<notin> set (events_of env msg))"
  using on_message_calibrated_cases [OF dec num cal fs] lab
  by (elim disjE exE conjE) (auto simp: status_label_def split: option.splits if_splits)

lemma on_message_outcome:
  "(\<exists>R. SaveAttempt R \<in> set (events_of env msg))
   \<or> (\<exists>evs e. events_of env msg = evs @ [PrintErrorProcessing e] \<and> rows_of env msg = []
         \<and> filter is_save_attempt (events_of env msg) = [])"
proof (cases "decoded env msg")
  case (Inl e)
  from observed [OF decoded_Inl [OF Inl]] show ?thesis by simp
next
  case d: (Inr d)
  show ?thesis
  proof (cases "is_dict d")
    case False
    from observed [OF on_message_not_dict [OF d False]] show ?thesis by simp
  next
    case True
    then obtain kvs where "d = PDict kvs" by (cases d) auto
    with d have dec: "decoded env msg = Inr (PDict kvs)" by simp
    show ?thesis
    proof (cases "num_of (get_or kvs ''raw_gas'' (PInt 0))")
      case (Inl e)
      from observed [OF on_message_not_number [OF dec Inl]] show ?thesis by simp
    next
      case num: (Inr x)
      show ?thesis
      proof (cases "map_value x (NInt 0) (NInt 4095) (NInt 0) (NInt 1000)")
        case (Inl e)
        from observed [OF on_message_calibration_fails [OF dec num Inl]] show ?thesis by simp
      next
        case cal: (Inr g)
        from on_message_calibrated_cases [OF dec num cal refl]
        show ?thesis
        proof (elim disjE exE conjE)
          fix e
          assume "events_of env msg =
              [ModelPredict [get_or kvs ''temp'' (PInt 0), get_or kvs ''humidity'' (PInt 50), val_of g],
               PrintErrorProcessing e]" "rows_of env msg = []"
          then have "events_of env msg =
              [ModelPredict [get_or kvs ''temp'' (PInt 0), get_or kvs ''humidity'' (PInt 50), val_of g]]
              @ [PrintErrorProcessing e] \<and> rows_of env msg = []
              \<and> filter is_save_attempt (events_of env msg) = []" by simp
          then show ?thesis by blast
        next
          fix e
          assume "events_of env msg =
              [ModelPredict [get_or kvs ''temp'' (PInt 0), get_or kvs ''humidity'' (PInt 50), val_of g],
               ModelPredictProba [get_or kvs ''temp'' (PInt 0), get_or kvs ''humidity'' (PInt 50), val_of g],
               PrintErrorProcessing e]" "rows_of env msg = []"
          then have "events_of env msg =
              [ModelPredict [get_or kvs ''temp'' (PInt 0), get_or kvs ''humidity'' (PInt 50), val_of g],
               ModelPredictProba [get_or kvs ''temp'' (PInt 0), get_or kvs ''humidity'' (PInt 50), val_of g]]
              @ [PrintErrorProcessing e] \<and> rows_of env msg = []
              \<and> filter is_save_attempt (events_of env msg) = []" by simp
          then show ?thesis by blast
        next
          fix e
          assume "events_of env msg =
              [ModelPredict [get_or kvs ''temp'' (PInt 0), get_or kvs ''humidity'' (PInt 50), val_of g],
               ModelPredictProba [get_or kvs ''temp'' (PInt 0), get_or kvs ''humidity'' (PInt 50), val_of g],
               PrintNode (get_or kvs ''node_id'' (PStr ''node_unknown'')),
               PrintErrorProcessing e]" "rows_of env msg = []"
          then have "events_of env msg =
              [ModelPredict [get_or kvs ''temp'' (PInt 0), get_or kvs ''humidity'' (PInt 50), val_of g],
               ModelPredictProba [get_or kvs ''temp'' (PInt 0), get_or kvs ''humidity'' (PInt 50), val_of g],
               PrintNode (get_or kvs ''node_id'' (PStr ''node_unknown''))]
              @ [PrintErrorProcessing e] \<and> rows_of env msg = []
              \<and> filter is_save_attempt (events_of env msg) = []" by simp
          then show ?thesis by blast
        next
          fix label row R
          assume "events_of env msg =
                [ModelPredict [get_or kvs ''temp'' (PInt 0), get_or kvs ''humidity'' (PInt 50), val_of g],
                 ModelPredictProba [get_or kvs ''temp'' (PInt 0), get_or kvs ''humidity'' (PInt 50), val_of g],
                 PrintNode (get_or kvs ''node_id'' (PStr ''node_unknown'')),
                 PrintData (get_or kvs ''raw_gas'' (PInt 0)) g (get_or kvs ''temp'' (PInt 0)),
                 (if label = 1 then PrintFireDetected (fmul (row ! 1) (Fin 100))
                  else PrintNormal (fmul (row ! 1) (Fin 100))),
                 SaveAttempt R] @
                (case db_state msg of
                   None \<Rightarrow> [PrintSaved (get_or kvs ''node_id'' (PStr ''node_unknown''))]
                 | Some e \<Rightarrow> [if is_mysql_error e then PrintDatabaseError e
                              else PrintErrorProcessing e])"
          then have "SaveAttempt R \<in> set (events_of env msg)" by simp
          then show ?thesis by blast
        qed
      qed
    qed
  qed
qed


section \<open>The concrete environment on its messages\<close>

lemma example_decoded_n1:
  "decoded example_env \<lparr>payload = n1_payload, db_state = db\<rparr> = Inr (PDict n1_fields)"
  by (simp add: decoded_def example_env_def example_loads_def)

lemma example_n1_raw: "num_of (get_or n1_fields ''raw_gas'' (PInt 0)) = Inr (NInt 2048)"
  by (simp add: get_or_def n1_fields_def)

lemma example_n1_temp: "get_or n1_fields ''temp'' (PInt 0) = PInt 25"
  by (simp add: get_or_def n1_fields_def)

lemma example_n1_hum: "get_or n1_fields ''humidity'' (PInt 50) = PInt 40"
  by (simp add: get_or_def n1_fields_def)

lemma example_n1_node: "get_or n1_fields ''node_id'' (PStr ''node_unknown'') = PStr ''n1''"
  by (simp add: get_or_def n1_fields_def)

lemma example_n1_gas: "get_or n1_fields ''raw_gas'' (PInt 0) = PInt 2048"
  by (simp add: get_or_def n1_fields_def)

lemma map_value_0:
  "map_value (NInt 0) (NInt 0) (NInt 4095) (NInt 0) (NInt 1000) = Inr (NFloat (Fin 0))"
  by (simp add: map_value_int_consts float_round_0 float_overflow_def)

lemma map_value_2048:
  "map_value (NInt 2048) (NInt 0) (NInt 4095) (NInt 0) (NInt 1000)
     = Inr (NFloat (Fin (float_round (2048000 / 4095))))"
  using map_value_int_consts [of 2048] by (simp add: float_overflow_def)

lemma map_value_5000:
  "map_value (NInt 5000) (NInt 0) (NInt 4095) (NInt 0) (NInt 1000)
     = Inr (NFloat (Fin (float_round (5000000 / 4095))))"
  using map_value_int_consts [of 5000] by (simp add: float_overflow_def)

lemma map_value_huge:
  "map_value (NInt (10 ^ 309)) (NInt 0) (NInt 4095) (NInt 0) (NInt 1000) = Inl OverflowError"
  using map_value_int_consts [of "10 ^ 309"] by (simp add: float_overflow_def)

lemma tiny_powr: "(2::real) powr (- 1075) \<le> 1 / 1024"
proof -
  have "(2::real) powr (- 1075) \<le> 2 powr (- 10)" by (intro powr_mono) auto
  also have "(2::real) powr (- 10) = 1 / 2 powr 10" by (simp add: powr_minus_divide)
  also have "\<dots> = 1 / 1024" by simp
  finally show ?thesis .
qed

lemma float_round_near:
  assumes "\<bar>x\<bar> \<le> 2 ^ 40"
  shows "\<bar>float_round x - x\<bar> \<le> 1 / 512"
proof -
  have "\<bar>x\<bar> / 2 ^ 53 \<le> 2 ^ 40 / 2 ^ 53" using assms by (simp add: divide_right_mono)
  then have "\<bar>x\<bar> / 2 ^ 53 \<le> 1 / 1024" by simp
  with float_round_err [of x] tiny_powr show ?thesis by linarith
qed

lemma float_round_2048_bounds:
  "50012 / 100 < float_round (2048000 / 4095)" "float_round (2048000 / 4095) < 50013 / 100"
proof -
  have e: "\<bar>float_round (2048000 / 4095) - 2048000 / 4095\<bar> \<le> 1 / 512"
    by (rule float_round_near) simp
  have "(50012 / 100 :: real) + 1 / 512 < 2048000 / 4095" "(2048000 / 4095 :: real) + 1 / 512 < 50013 / 100"
    by simp_all
  with e show "50012 / 100 < float_round (2048000 / 4095)" "float_round (2048000 / 4095) < 50013 / 100"
    by linarith+
qed

lemma example_predict: "predict example_env fs = Inr 1"
  by (simp add: example_env_def)

lemma example_predict_proba: "predict_proba example_env fs = Inr [Fin (3 / 4), Fin (1 / 4)]"
  by (simp add: example_env_def)

lemma float_round_eighths:
  assumes "\<bar>m\<bar> \<le> 2 ^ 53"
  shows "float_round (of_int m / 8) = of_int m / 8"
proof -
  have "(2::real) powr of_int (- 3) = 1 / 2 powr 3" by (simp add: powr_minus_divide)
  then have "real_of_int m / 8 = of_int m * 2 powr of_int (- 3)" by simp
  from float_round_on_grid [OF this _ assms] show ?thesis by simp
qed

lemma float_round_below_zero:
  assumes "i < 0"
  shows "float_round (of_int i * 1000 / 4095) < 0"
proof -
  have "real_of_int i \<le> - 1" using assms by linarith
  then have "real_of_int i * 1000 / 4095 \<le> of_int (- 1) / 8" by simp
  then have "float_round (of_int i * 1000 / 4095) \<le> float_round (of_int (- 1) / 8)"
    by (rule float_round_mono)
  also have "\<dots> = of_int (- 1) / 8" by (rule float_round_eighths) simp
  finally show ?thesis by simp
qed

lemma float_round_above_1000:
  assumes "4095 < i"
  shows "1000 < float_round (of_int i * 1000 / 4095)"
proof -
  have "4096 \<le> real_of_int i" using assms by linarith
  then have "of_int 8001 / 8 \<le> real_of_int i * 1000 / 4095" by simp
  then have "float_round (of_int 8001 / 8) \<le> float_round (of_int i * 1000 / 4095)"
    by (rule float_round_mono)
  moreover have "float_round (of_int 8001 / 8) = of_int 8001 / 8" by (rule float_round_eighths) simp
  ultimately show ?thesis by simp
qed

lemma to_float_25: "to_float 25 = Fin 25"
  using to_float_of_int [of 25] by simp

lemma example_decoded_empty:
  "decoded example_env \<lparr>payload = ''{}'', db_state = db\<rparr> = Inr (PDict [])"
  by (simp add: decoded_def example_env_def example_loads_def n1_payload_def)

lemma example_decoded_bad:
  "decoded example_env \<lparr>payload = ''{raw_gas'', db_state = db\<rparr> = Inl JSONDecodeError"
  by (simp add: decoded_def example_env_def example_loads_def n1_payload_def huge_payload_def)

lemma example_decoded_5000:
  "decoded example_env \<lparr>payload = ''{\"raw_gas\":5000}'', db_state = db\<rparr>
     = Inr (PDict [(''raw_gas'', PInt 5000)])"
  by (simp add: decoded_def example_env_def example_loads_def n1_payload_def)

lemma example_decoded_list:
  "decoded example_env \<lparr>payload = ''[1,2]'', db_state = db\<rparr> = Inr (PList [PInt 1, PInt 2])"
  by (simp add: decoded_def example_env_def example_loads_def n1_payload_def huge_payload_def)

lemma example_decoded_huge:
  "decoded example_env \<lparr>payload = huge_payload, db_state = db\<rparr>
     = Inr (PDict [(''raw_gas'', PInt (10 ^ 309))])"
  by (simp add: decoded_def example_env_def example_loads_def n1_payload_def huge_payload_def)

lemma example_huge_raw:
  "num_of (get_or [(''raw_gas'', PInt (10 ^ 309))] ''raw_gas'' (PInt 0)) = Inr (NInt (10 ^ 309))"
  by (simp add: get_or_def)

lemma example_huge_events:
  "events_of example_env \<lparr>payload = huge_payload, db_state = db\<rparr> = [PrintErrorProcessing OverflowError]
   \<and> rows_of example_env \<lparr>payload = huge_payload, db_state = db\<rparr> = []"
  by (rule observed)
     (rule on_message_calibration_fails [OF example_decoded_huge example_huge_raw map_value_huge])

lemma tiny_float_round:
  "float_round (- (1000 * 2 powr (- 1074)) / 4095) = 0"
proof -
  define t :: real where "t = 2 powr of_int (- 1074)"
  define y :: real where "y = - (1000 * t) / 4095"
  have t0: "0 < t" by (simp add: t_def)
  have y0: "y \<noteq> 0" using t0 by (simp add: y_def)
  have ay: "\<bar>y\<bar> = 1000 * t / 4095" using t0 by (simp add: y_def)
  have "\<bar>y\<bar> < t" using t0 by (simp add: ay)
  also have "t \<le> 2 powr of_int (- 1074 + 53)" unfolding t_def by (intro powr_mono) auto
  finally have "quantum_exp y \<le> - 1074" using y0 by (intro quantum_exp_bound) auto
  then have "quantum_exp y = - 1074" by (simp add: quantum_exp_def)
  then have q: "quantum y = t" by (simp add: quantum_def t_def)
  have "y / t = - 1000 / 4095" using t0 by (simp add: y_def)
  moreover have "round_even (- 1000 / 4095) = 0" by (simp add: round_even_def Let_def)
  ultimately have "float_round y = 0" by (simp add: float_round_def q)
  then show ?thesis by (simp add: y_def t_def)
qed

lemma calibrate_float_tiny:
  "calibrate_float (Fin (- (2 powr (- 1074)))) = Fin 0"
proof -
  define t :: real where "t = 2 powr of_int (- 1074)"
  have t0: "0 < t" by (simp add: t_def)
  have "t \<le> 2 powr 0" unfolding t_def by (intro powr_mono) auto
  then have t1: "t \<le> 1" by simp
  have ov: "(2::real) ^ 53 < float_overflow" by (rule float_overflow_gt)
  have a: "float_round (- t) = - t"
    by (rule float_round_on_grid [of _ "- 1" "- 1074"]) (simp_all add: t_def)
  have b: "float_round (- (1000 * t)) = - (1000 * t)"
    by (rule float_round_on_grid [of _ "- 1000" "- 1074"]) (simp_all add: t_def)
  have c: "float_round (- (1000 * t) / 4095) = 0" using tiny_float_round by (simp add: t_def)
  have 1: "to_float (- t) = Fin (- t)"
    using t0 t1 ov by (simp add: to_float_in_range a)
  have 2: "to_float (- (1000 * t)) = Fin (- (1000 * t))"
    using t0 t1 ov by (simp add: to_float_in_range b)
  have "\<bar>- (1000 * t) / 4095\<bar> < float_overflow" using t0 t1 ov by simp
  from to_float_in_range [OF this] have 3: "to_float (- (1000 * t) / 4095) = Fin 0"
    unfolding c .
  have 4: "to_float 0 = Fin 0" using to_float_of_int [of 0] by simp
  have s1: "fsub (Fin (- t)) (Fin 0) = Fin (- t)" using 1 by (simp add: fsub_def)
  have s2: "fmul (Fin (- t)) (Fin 1000) = Fin (- (1000 * t))" using 2 by (simp add: mult.commute)
  have s3: "fdiv (Fin (- (1000 * t))) (Fin 4095) = Fin 0" using 3 by simp
  have s4: "fadd (Fin 0) (Fin 0) = Fin 0" using 4 by simp
  have "calibrate_float (Fin (- t)) = Fin 0"
    unfolding calibrate_float_def s1 s2 s3 s4 ..
  then show ?thesis by (simp add: t_def)
qed

lemma get_or_empty: "get_or [] k dflt = dflt"
  by (simp add: get_or_def)

lemma example_5000_raw:
  "num_of (get_or [(''raw_gas'', PInt 5000)] ''raw_gas'' (PInt 0)) = Inr (NInt 5000)"
  by (simp add: get_or_def)

section \<open>The claims\<close>

text \<open>
  C1. The status derived in lines 94-98 is the spec's Risk Policy: CRITICAL when the label
  is 1 (the alarm), otherwise WARNING when the risk percentage is above 50, otherwise SAFE.
  The decision table holds at the four inputs the spec names; the boundary 50 is SAFE.
  The label also decides when the risk is an infinity or NaN.
\<close>

theorem risk_policy_table:
  "status_label prediction (Fin p) = status_name (classify_spec (prediction = 1) p)
   \<and> status_label 1 (Fin 0) = ''CRITICAL''
   \<and> status_label 0 (Fin 51) = ''WARNING''
   \<and> status_label 0 (Fin 50) = ''SAFE''
   \<and> status_label 0 (Fin (500001 / 10000)) = ''WARNING''
   \<and> status_label 1 risk = ''CRITICAL''"
  by (simp add: status_label_def classify_spec_def)

text \<open>
  C2. When the classifier's label is 1 (the alarm), every row the handler hands to the
  sink or stores has the status CRITICAL and the normal report is never printed, whatever
  the probability is: the label takes priority over the threshold of 50. When the
  classifier also gives the probabilities and the node id and the temperature can be
  printed, the fire report is printed and the CRITICAL row is handed to the sink. In the
  concrete run the risk is 25 percent.
\<close>

theorem alarm_label_is_critical:
  assumes dec: "decoded env msg = Inr (PDict kvs)"
    and num: "num_of (get_or kvs ''raw_gas'' (PInt 0)) = Inr x"
    and cal: "map_value x (NInt 0) (NInt 4095) (NInt 0) (NInt 1000) = Inr g"
    and fs: "fs = [get_or kvs ''temp'' (PInt 0), get_or kvs ''humidity'' (PInt 50), val_of g]"
    and lab: "predict env fs = Inr 1"
    and R: "R = \<lparr>node_id = get_or kvs ''node_id'' (PStr ''node_unknown''),
                 temp_val = get_or kvs ''temp'' (PInt 0),
                 humidity_val = get_or kvs ''humidity'' (PInt 50),
                 smoke_level = g, fire_risk = fmul (row ! 1) (Fin 100),
                 alert_status = ''CRITICAL''\<rparr>"
  shows "(\<forall>S. SaveAttempt S \<in> set (events_of env msg) \<longrightarrow> alert_status S = ''CRITICAL'')
     \<and> (\<forall>S. S \<in> set (rows_of env msg) \<longrightarrow> alert_status S = ''CRITICAL'')
     \<and> (\<forall>r. PrintNormal r \<notin> set (events_of env msg))
     \<and> status_label 1 (fmul (row ! 1) (Fin 100)) = ''CRITICAL''
     \<and> (predict_proba env fs = Inr row \<and> 1 < length row
          \<and> printable (get_or kvs ''node_id'' (PStr ''node_unknown''))
          \<and> printable (get_or kvs ''temp'' (PInt 0))
        \<longrightarrow> events_of env msg =
              [ModelPredict fs, ModelPredictProba fs,
               PrintNode (get_or kvs ''node_id'' (PStr ''node_unknown'')),
               PrintData (get_or kvs ''raw_gas'' (PInt 0)) g (get_or kvs ''temp'' (PInt 0)),
               PrintFireDetected (fmul (row ! 1) (Fin 100)),
               SaveAttempt R] @
              (case db_state msg of
                 None \<Rightarrow> [PrintSaved (get_or kvs ''node_id'' (PStr ''node_unknown''))]
               | Some e \<Rightarrow> [if is_mysql_error e then PrintDatabaseError e
                            else PrintErrorProcessing e])
            \<and> rows_of env msg = (case db_state msg of None \<Rightarrow> [R] | Some e \<Rightarrow> []))"
proof -
  have st: "status_label 1 (fmul (row ! 1) (Fin 100)) = ''CRITICAL''"
    by (simp add: status_label_def)
  have R': "R = \<lparr>node_id = get_or kvs ''node_id'' (PStr ''node_unknown''),
                 temp_val = get_or kvs ''temp'' (PInt 0),
                 humidity_val = get_or kvs ''humidity'' (PInt 50),
                 smoke_level = g, fire_risk = fmul (row ! 1) (Fin 100),
                 alert_status = status_label 1 (fmul (row ! 1) (Fin 100))\<rparr>"
    unfolding R st ..
  have full: "predict_proba env fs = Inr row \<and> 1 < length row
          \<and> printable (get_or kvs ''node_id'' (PStr ''node_unknown''))
          \<and> printable (get_or kvs ''temp'' (PInt 0))
        \<longrightarrow> events_of env msg =
              [ModelPredict fs, ModelPredictProba fs,
               PrintNode (get_or kvs ''node_id'' (PStr ''node_unknown'')),
               PrintData (get_or kvs ''raw_gas'' (PInt 0)) g (get_or kvs ''temp'' (PInt 0)),
               PrintFireDetected (fmul (row ! 1) (Fin 100)),
               SaveAttempt R] @
              (case db_state msg of
                 None \<Rightarrow> [PrintSaved (get_or kvs ''node_id'' (PStr ''node_unknown''))]
               | Some e \<Rightarrow> [if is_mysql_error e then PrintDatabaseError e
                            else PrintErrorProcessing e])
            \<and> rows_of env msg = (case db_state msg of None \<Rightarrow> [R] | Some e \<Rightarrow> [])"
  proof (intro impI, elim conjE)
    assume pro: "predict_proba env fs = Inr row" and len: "1 < length row"
      and node: "printable (get_or kvs ''node_id'' (PStr ''node_unknown''))"
      and temp: "printable (get_or kvs ''temp'' (PInt 0))"
    from processed_events [OF dec num cal fs lab pro len node temp R']
    show "events_of env msg =
              [ModelPredict fs, ModelPredictProba fs,
               PrintNode (get_or kvs ''node_id'' (PStr ''node_unknown'')),
               PrintData (get_or kvs ''raw_gas'' (PInt 0)) g (get_or kvs ''temp'' (PInt 0)),
               PrintFireDetected (fmul (row ! 1) (Fin 100)),
               SaveAttempt R] @
              (case db_state msg of
                 None \<Rightarrow> [PrintSaved (get_or kvs ''node_id'' (PStr ''node_unknown''))]
               | Some e \<Rightarrow> [if is_mysql_error e then PrintDatabaseError e
                            else PrintErrorProcessing e])
            \<and> rows_of env msg = (case db_state msg of None \<Rightarrow> [R] | Some e \<Rightarrow> [])"
      by simp
  qed
  from alarm_rows_critical [OF dec num cal fs lab] st full show ?thesis by blast
qed

theorem alarm_label_is_critical_witness:
  "events_of example_env \<lparr>payload = n1_payload, db_state = None\<rparr> =
     [ModelPredict [PInt 25, PInt 40, PFloat (Fin (float_round (2048000 / 4095)))],
      ModelPredictProba [PInt 25, PInt 40, PFloat (Fin (float_round (2048000 / 4095)))],
      PrintNode (PStr ''n1''),
      PrintData (PInt 2048) (NFloat (Fin (float_round (2048000 / 4095)))) (PInt 25),
      PrintFireDetected (Fin 25),
      SaveAttempt \<lparr>node_id = PStr ''n1'', temp_val = PInt 25, humidity_val = PInt 40,
                smoke_level = NFloat (Fin (float_round (2048000 / 4095))),
                fire_risk = Fin 25, alert_status = ''CRITICAL''\<rparr>,
      PrintSaved (PStr ''n1'')]
   \<and> rows_of example_env \<lparr>payload = n1_payload, db_state = None\<rparr> =
     [\<lparr>node_id = PStr ''n1'', temp_val = PInt 25, humidity_val = PInt 40,
       smoke_level = NFloat (Fin (float_round (2048000 / 4095))),
       fire_risk = Fin 25, alert_status = ''CRITICAL''\<rparr>]
   \<and> \<not> fgt (Fin 25) (Fin 50)"
  using alarm_label_is_critical [OF example_decoded_n1 example_n1_raw map_value_2048 refl
      example_predict refl, of None "[Fin (3 / 4), Fin (1 / 4)]"]
  by (simp add: example_n1_temp example_n1_hum example_n1_node example_n1_gas
      example_predict_proba to_float_25)

text \<open>
  C3, as the spec states it, fails for an integer reading of 1 followed by 309 zeros: the
  input range 0 to 4095 is not empty, and the quotient is beyond the doubles, so
  \<open>map_value\<close> raises \<^verbatim>\<open>OverflowError\<close>.
\<close>

theorem map_value_overflow_counterexample:
  "map_value (NInt (10 ^ 309)) (NInt 0) (NInt 4095) (NInt 0) (NInt 1000) = Inl OverflowError
   \<and> (0::int) \<noteq> 4095"
  using map_value_huge by simp

text \<open>
  C3, amended. On integers \<open>map_value\<close> raises \<^verbatim>\<open>ZeroDivisionError\<close> exactly when
  \<open>inMin = inMax\<close>; otherwise the product is exact, the quotient is rounded once to the
  nearest double, or raises \<^verbatim>\<open>OverflowError\<close> when it is beyond the doubles, and
  \<open>outMin\<close> is added in float arithmetic. With \<open>outMin = 0\<close>, as the handler calls it, the
  result is the spec's affine value rounded to the nearest double, and rounding moves a
  value \<open>s\<close> by at most \<open>|s| / 2\<^sup>5\<^sup>3 + 2\<^sup>-\<^sup>1\<^sup>0\<^sup>7\<^sup>5\<close>. With the handler's constants a float
  reading never raises.
\<close>

theorem map_value_affine_rounded:
  "map_value (NInt x) (NInt inMin) (NInt inMax) (NInt outMin) (NInt outMax) =
     (if inMin = inMax then Inl ZeroDivisionError
      else if float_overflow
              \<le> \<bar>of_int ((x - inMin) * (outMax - outMin)) / of_int (inMax - inMin)\<bar>
      then Inl OverflowError
      else bind_err (int_to_float outMin) (\<lambda>c.
             Inr (NFloat (fadd
               (Fin (float_round
                  (of_int ((x - inMin) * (outMax - outMin)) / of_int (inMax - inMin)))) c))))
   \<and> map_value (NInt x) (NInt inMin) (NInt inMax) (NInt 0) (NInt outMax) =
     (if inMin = inMax then Inl ZeroDivisionError
      else if float_overflow
              \<le> \<bar>calibrate_spec (of_int x) (of_int inMin) (of_int inMax) 0 (of_int outMax)\<bar>
      then Inl OverflowError
      else Inr (NFloat (Fin (float_round
             (calibrate_spec (of_int x) (of_int inMin) (of_int inMax) 0 (of_int outMax))))))
   \<and> \<bar>float_round s - s\<bar> \<le> \<bar>s\<bar> / 2 ^ 53 + 2 powr (- 1075)
   \<and> map_value (NFloat f) (NInt 0) (NInt 4095) (NInt 0) (NInt 1000)
       = Inr (NFloat (calibrate_float f))"
proof -
  let ?s = "calibrate_spec (of_int x) (of_int inMin) (of_int inMax) 0 (of_int outMax)"
  have s: "?s = of_int ((x - inMin) * (outMax - 0)) / of_int (inMax - inMin)"
    by (simp add: calibrate_spec_def)
  have zero: "map_value (NInt x) (NInt inMin) (NInt inMax) (NInt 0) (NInt outMax) =
     (if inMin = inMax then Inl ZeroDivisionError
      else if float_overflow \<le> \<bar>?s\<bar> then Inl OverflowError
      else Inr (NFloat (Fin (float_round ?s))))"
  proof (cases "inMin = inMax \<or> float_overflow \<le> \<bar>?s\<bar>")
    case True
    then show ?thesis unfolding s map_value_ints by auto
  next
    case False
    then have r: "\<bar>?s\<bar> < float_overflow" by simp
    have "fadd (Fin (float_round ?s)) (Fin 0) = Fin (float_round ?s)"
      using to_float_rounded [OF r] by simp
    then show ?thesis using False unfolding s map_value_ints
      by (simp add: bind_err_def int_to_float_consts)
  qed
  show ?thesis
    using zero map_value_ints [of x inMin inMax outMin outMax] float_round_err [of s]
      map_value_float_consts [of f]
    by simp
qed

text \<open>
  C4. With the constants of the handler the calibration is monotonic non-decreasing on
  readings between 0 and 4095, integers and floats alike, and exact at both ends: 0 goes
  to 0 and 4095 to 1000.
\<close>

theorem calibration_monotone:
  assumes "has_value x a" and "has_value y b" and "0 \<le> a" and "a \<le> b" and "b \<le> 4095"
  shows "\<exists>u v. map_value x (NInt 0) (NInt 4095) (NInt 0) (NInt 1000) = Inr (NFloat (Fin u))
           \<and> map_value y (NInt 0) (NInt 4095) (NInt 0) (NInt 1000) = Inr (NFloat (Fin v))
           \<and> u \<le> v
           \<and> map_value (NInt 0) (NInt 0) (NInt 4095) (NInt 0) (NInt 1000) = Inr (NFloat (Fin 0))
           \<and> map_value (NInt 4095) (NInt 0) (NInt 4095) (NInt 0) (NInt 1000) = Inr (NFloat (Fin 1000))
           \<and> map_value (NFloat (Fin 0)) (NInt 0) (NInt 4095) (NInt 0) (NInt 1000) = Inr (NFloat (Fin 0))
           \<and> map_value (NFloat (Fin 4095)) (NInt 0) (NInt 4095) (NInt 0) (NInt 1000)
               = Inr (NFloat (Fin 1000))"
proof -
  have mx: "map_value x (NInt 0) (NInt 4095) (NInt 0) (NInt 1000) = Inr (NFloat (calibrate_float (Fin a)))"
    using assms by (intro map_value_in_range) auto
  have my: "map_value y (NInt 0) (NInt 4095) (NInt 0) (NInt 1000) = Inr (NFloat (calibrate_float (Fin b)))"
    using assms by (intro map_value_in_range) auto
  have lo: "fle (Fin 0) (calibrate_float (Fin a))"
    using calibrate_float_mono [of "Fin 0" "Fin a"] assms by (simp add: calibrate_float_0)
  have mid: "fle (calibrate_float (Fin a)) (calibrate_float (Fin b))"
    using assms by (intro calibrate_float_mono) simp
  have hi: "fle (calibrate_float (Fin b)) (Fin 1000)"
    using calibrate_float_mono [of "Fin b" "Fin 4095"] assms by (simp add: calibrate_float_4095)
  from fle_Fin_between [OF lo fle_trans [OF mid hi]]
  obtain u where u: "calibrate_float (Fin a) = Fin u" by blast
  from fle_Fin_between [OF fle_trans [OF lo mid] hi]
  obtain v where v: "calibrate_float (Fin b) = Fin v" by blast
  from mid have uv: "u \<le> v" by (simp add: u v)
  have e0: "map_value (NInt 0) (NInt 0) (NInt 4095) (NInt 0) (NInt 1000) = Inr (NFloat (Fin 0))"
    using map_value_in_range [of "NInt 0" 0] by (simp add: calibrate_float_0)
  have e1: "map_value (NInt 4095) (NInt 0) (NInt 4095) (NInt 0) (NInt 1000) = Inr (NFloat (Fin 1000))"
    using map_value_in_range [of "NInt 4095" 4095] by (simp add: calibrate_float_4095)
  have f0: "map_value (NFloat (Fin 0)) (NInt 0) (NInt 4095) (NInt 0) (NInt 1000) = Inr (NFloat (Fin 0))"
    by (simp add: map_value_float_consts calibrate_float_0)
  have f1: "map_value (NFloat (Fin 4095)) (NInt 0) (NInt 4095) (NInt 0) (NInt 1000)
      = Inr (NFloat (Fin 1000))"
    by (simp add: map_value_float_consts calibrate_float_4095)
  from mx my u v uv e0 e1 f0 f1 show ?thesis by simp
qed

theorem calibration_monotone_witness:
  "\<exists>u v. map_value (NInt 100) (NInt 0) (NInt 4095) (NInt 0) (NInt 1000) = Inr (NFloat (Fin u))
           \<and> map_value (NFloat (Fin (401 / 2))) (NInt 0) (NInt 4095) (NInt 0) (NInt 1000)
               = Inr (NFloat (Fin v))
           \<and> u \<le> v
           \<and> map_value (NInt 0) (NInt 0) (NInt 4095) (NInt 0) (NInt 1000) = Inr (NFloat (Fin 0))
           \<and> map_value (NInt 4095) (NInt 0) (NInt 4095) (NInt 0) (NInt 1000) = Inr (NFloat (Fin 1000))"
  using calibration_monotone [of "NInt 100" 100 "NFloat (Fin (401 / 2))" "401 / 2"] by auto



text \<open>
  C6, as the spec states it, fails at the message of node n1: the raw gas 2048 calibrates
  to the double nearest to \<open>2048000 / 4095\<close>, which is 500.12 to two decimals and differs
  from the spec's 500.06 by more than 0.06. This value is what the classifier receives.
\<close>

theorem n1_calibration_counterexample:
  "hd (events_of example_env \<lparr>payload = n1_payload, db_state = None\<rparr>) =
     ModelPredict [PInt 25, PInt 40, PFloat (Fin (float_round (2048000 / 4095)))]
   \<and> map_value (NInt 2048) (NInt 0) (NInt 4095) (NInt 0) (NInt 1000)
       = Inr (NFloat (Fin (float_round (2048000 / 4095))))
   \<and> 6 / 100 < \<bar>float_round (2048000 / 4095) - 50006 / 100\<bar>"
proof -
  from on_message_classifier_called [OF example_decoded_n1 example_n1_raw map_value_2048 refl, of None]
  obtain rest where "events_of example_env \<lparr>payload = n1_payload, db_state = None\<rparr> =
      ModelPredict [PInt 25, PInt 40, PFloat (Fin (float_round (2048000 / 4095)))] # rest"
    by (auto simp: example_n1_temp example_n1_hum)
  moreover have "6 / 100 < \<bar>float_round (2048000 / 4095) - 50006 / 100\<bar>"
    using float_round_2048_bounds(1) by linarith
  ultimately show ?thesis by (simp add: map_value_2048)
qed

text \<open>
  C6, amended. For every message that decodes to an object whose raw gas calibrates, the
  classifier is called with the features in the order temperature, humidity, calibrated
  gas, and with no other features. For the message of node n1 the features are 25, 40 and
  the double nearest to \<open>2048000 / 4095\<close>, a value between 500.12 and 500.13.
\<close>

theorem classifier_features_order:
  assumes dec: "decoded env msg = Inr (PDict kvs)"
    and num: "num_of (get_or kvs ''raw_gas'' (PInt 0)) = Inr x"
    and cal: "map_value x (NInt 0) (NInt 4095) (NInt 0) (NInt 1000) = Inr g"
    and fs: "fs = [get_or kvs ''temp'' (PInt 0), get_or kvs ''humidity'' (PInt 50), val_of g]"
  shows "(\<exists>rest. events_of env msg = ModelPredict fs # rest)
     \<and> filter is_model_call (events_of env msg) \<in>
           {[ModelPredict fs], [ModelPredict fs, ModelPredictProba fs]}
     \<and> (kvs = n1_fields \<longrightarrow>
           fs = [PInt 25, PInt 40, PFloat (Fin (float_round (2048000 / 4095)))]
           \<and> 50012 / 100 < float_round (2048000 / 4095)
           \<and> float_round (2048000 / 4095) < 50013 / 100)"
proof -
  have n1: "kvs = n1_fields \<longrightarrow>
           fs = [PInt 25, PInt 40, PFloat (Fin (float_round (2048000 / 4095)))]
           \<and> 50012 / 100 < float_round (2048000 / 4095)
           \<and> float_round (2048000 / 4095) < 50013 / 100"
  proof
    assume k: "kvs = n1_fields"
    from num have "x = NInt 2048" by (simp add: k example_n1_raw)
    with cal have g: "g = NFloat (Fin (float_round (2048000 / 4095)))" by (simp add: map_value_2048)
    show "fs = [PInt 25, PInt 40, PFloat (Fin (float_round (2048000 / 4095)))]
           \<and> 50012 / 100 < float_round (2048000 / 4095)
           \<and> float_round (2048000 / 4095) < 50013 / 100"
      using float_round_2048_bounds by (simp add: fs k g example_n1_temp example_n1_hum)
  qed
  from on_message_classifier_called [OF dec num cal fs] n1 show ?thesis by blast
qed

theorem classifier_features_order_witness:
  "(\<exists>rest. events_of example_env \<lparr>payload = n1_payload, db_state = None\<rparr> =
       ModelPredict [PInt 25, PInt 40, PFloat (Fin (float_round (2048000 / 4095)))] # rest)
   \<and> 50012 / 100 < float_round (2048000 / 4095)
   \<and> float_round (2048000 / 4095) < 50013 / 100"
  using classifier_features_order [OF example_decoded_n1 example_n1_raw map_value_2048 refl, of None]
  by (simp add: example_n1_temp example_n1_hum)

text \<open>
  C7. A message is processed up to the sink and the database raises \<open>e\<close> (on connect, on
  the INSERT or on commit). The error is caught and printed: by \<^verbatim>\<open>save_to_database\<close> if it
  is a \<^verbatim>\<open>mysql.connector.Error\<close>, by the handler's \<^verbatim>\<open>except Exception\<close> otherwise. The handler
  returns normally and no row is stored. The next message is then processed in full: both
  classifier calls, the two received lines, the status line, the persistence attempt with
  its own row, and the row is stored if the database accepts it. The loop goes on with
  the messages after it.
\<close>

theorem sink_failure_isolated:
  assumes dec: "decoded env msg = Inr (PDict kvs)"
    and num: "num_of (get_or kvs ''raw_gas'' (PInt 0)) = Inr x"
    and cal: "map_value x (NInt 0) (NInt 4095) (NInt 0) (NInt 1000) = Inr g"
    and fs: "fs = [get_or kvs ''temp'' (PInt 0), get_or kvs ''humidity'' (PInt 50), val_of g]"
    and lab: "predict env fs = Inr label"
    and pro: "predict_proba env fs = Inr row"
    and len: "1 < length row"
    and node: "printable (get_or kvs ''node_id'' (PStr ''node_unknown''))"
    and temp: "printable (get_or kvs ''temp'' (PInt 0))"
    and R: "R = \<lparr>node_id = get_or kvs ''node_id'' (PStr ''node_unknown''),
                 temp_val = get_or kvs ''temp'' (PInt 0),
                 humidity_val = get_or kvs ''humidity'' (PInt 50),
                 smoke_level = g, fire_risk = fmul (row ! 1) (Fin 100),
                 alert_status = status_label label (fmul (row ! 1) (Fin 100))\<rparr>"
    and down: "db_state msg = Some e"
    and dec': "decoded env nxt = Inr (PDict kvs')"
    and num': "num_of (get_or kvs' ''raw_gas'' (PInt 0)) = Inr x'"
    and cal': "map_value x' (NInt 0) (NInt 4095) (NInt 0) (NInt 1000) = Inr g'"
    and fs': "fs' = [get_or kvs' ''temp'' (PInt 0), get_or kvs' ''humidity'' (PInt 50), val_of g']"
    and lab': "predict env fs' = Inr label'"
    and pro': "predict_proba env fs' = Inr row'"
    and len': "1 < length row'"
    and node': "printable (get_or kvs' ''node_id'' (PStr ''node_unknown''))"
    and temp': "printable (get_or kvs' ''temp'' (PInt 0))"
    and R': "R' = \<lparr>node_id = get_or kvs' ''node_id'' (PStr ''node_unknown''),
                 temp_val = get_or kvs' ''temp'' (PInt 0),
                 humidity_val = get_or kvs' ''humidity'' (PInt 50),
                 smoke_level = g', fire_risk = fmul (row' ! 1) (Fin 100),
                 alert_status = status_label label' (fmul (row' ! 1) (Fin 100))\<rparr>"
  shows "on_message env msg w =
       (Inr (), world_add w
          [ModelPredict fs, ModelPredictProba fs,
           PrintNode (get_or kvs ''node_id'' (PStr ''node_unknown'')),
           PrintData (get_or kvs ''raw_gas'' (PInt 0)) g (get_or kvs ''temp'' (PInt 0)),
           (if label = 1 then PrintFireDetected (fmul (row ! 1) (Fin 100))
            else PrintNormal (fmul (row ! 1) (Fin 100))),
           SaveAttempt R,
           (if is_mysql_error e then PrintDatabaseError e else PrintErrorProcessing e)] [])
     \<and> loop_forever env (msg # nxt # rest) w =
         Inr (world_add w
           ([ModelPredict fs, ModelPredictProba fs,
             PrintNode (get_or kvs ''node_id'' (PStr ''node_unknown'')),
             PrintData (get_or kvs ''raw_gas'' (PInt 0)) g (get_or kvs ''temp'' (PInt 0)),
             (if label = 1 then PrintFireDetected (fmul (row ! 1) (Fin 100))
              else PrintNormal (fmul (row ! 1) (Fin 100))),
             SaveAttempt R,
             (if is_mysql_error e then PrintDatabaseError e else PrintErrorProcessing e)] @
            [ModelPredict fs', ModelPredictProba fs',
             PrintNode (get_or kvs' ''node_id'' (PStr ''node_unknown'')),
             PrintData (get_or kvs' ''raw_gas'' (PInt 0)) g' (get_or kvs' ''temp'' (PInt 0)),
             (if label' = 1 then PrintFireDetected (fmul (row' ! 1) (Fin 100))
              else PrintNormal (fmul (row' ! 1) (Fin 100))),
             SaveAttempt R'] @
            (case db_state nxt of
               None \<Rightarrow> [PrintSaved (get_or kvs' ''node_id'' (PStr ''node_unknown''))]
             | Some e' \<Rightarrow> [if is_mysql_error e' then PrintDatabaseError e'
                           else PrintErrorProcessing e']) @
            concat (map (events_of env) rest))
           ((case db_state nxt of None \<Rightarrow> [R'] | Some e' \<Rightarrow> []) @
            concat (map (rows_of env) rest)))"
proof -
  have ev: "events_of env msg =
          [ModelPredict fs, ModelPredictProba fs,
           PrintNode (get_or kvs ''node_id'' (PStr ''node_unknown'')),
           PrintData (get_or kvs ''raw_gas'' (PInt 0)) g (get_or kvs ''temp'' (PInt 0)),
           (if label = 1 then PrintFireDetected (fmul (row ! 1) (Fin 100))
            else PrintNormal (fmul (row ! 1) (Fin 100))),
           SaveAttempt R,
           (if is_mysql_error e then PrintDatabaseError e else PrintErrorProcessing e)]"
    and rows: "rows_of env msg = []"
    using processed_events [OF dec num cal fs lab pro len node temp R] by (simp_all add: down)
  from processed_events [OF dec' num' cal' fs' lab' pro' len' node' temp' R']
  have ev': "events_of env nxt =
            [ModelPredict fs', ModelPredictProba fs',
             PrintNode (get_or kvs' ''node_id'' (PStr ''node_unknown'')),
             PrintData (get_or kvs' ''raw_gas'' (PInt 0)) g' (get_or kvs' ''temp'' (PInt 0)),
             (if label' = 1 then PrintFireDetected (fmul (row' ! 1) (Fin 100))
              else PrintNormal (fmul (row' ! 1) (Fin 100))),
             SaveAttempt R'] @
            (case db_state nxt of
               None \<Rightarrow> [PrintSaved (get_or kvs' ''node_id'' (PStr ''node_unknown''))]
             | Some e' \<Rightarrow> [if is_mysql_error e' then PrintDatabaseError e'
                           else PrintErrorProcessing e'])"
    and rows': "rows_of env nxt = (case db_state nxt of None \<Rightarrow> [R'] | Some e' \<Rightarrow> [])"
    by blast+
  have one: "on_message env msg w = (Inr (), world_add w (events_of env msg) [])"
    using on_message_extend [of env msg w] by (simp add: rows)
  have "loop_forever env (msg # nxt # rest) w =
      Inr (world_add w (events_of env msg @ events_of env nxt @ concat (map (events_of env) rest))
             (rows_of env nxt @ concat (map (rows_of env) rest)))"
    unfolding loop_forever_extend by (simp add: rows)
  then have two: "loop_forever env (msg # nxt # rest) w =
      Inr (world_add w (events_of env msg @
              ([ModelPredict fs', ModelPredictProba fs',
             PrintNode (get_or kvs' ''node_id'' (PStr ''node_unknown'')),
             PrintData (get_or kvs' ''raw_gas'' (PInt 0)) g' (get_or kvs' ''temp'' (PInt 0)),
             (if label' = 1 then PrintFireDetected (fmul (row' ! 1) (Fin 100))
              else PrintNormal (fmul (row' ! 1) (Fin 100))),
             SaveAttempt R'] @
            (case db_state nxt of
               None \<Rightarrow> [PrintSaved (get_or kvs' ''node_id'' (PStr ''node_unknown''))]
             | Some e' \<Rightarrow> [if is_mysql_error e' then PrintDatabaseError e'
                           else PrintErrorProcessing e'])) @ concat (map (events_of env) rest))
             ((case db_state nxt of None \<Rightarrow> [R'] | Some e' \<Rightarrow> []) @ concat (map (rows_of env) rest)))"
    unfolding ev' rows' .
  show ?thesis
    unfolding one two unfolding ev by simp
qed

theorem sink_failure_isolated_witness:
  "loop_forever example_env
     [\<lparr>payload = n1_payload, db_state = Some MySQLError\<rparr>, \<lparr>payload = ''{}'', db_state = None\<rparr>]
     empty_world =
   Inr \<lparr>events =
         [ModelPredict [PInt 25, PInt 40, PFloat (Fin (float_round (2048000 / 4095)))],
          ModelPredictProba [PInt 25, PInt 40, PFloat (Fin (float_round (2048000 / 4095)))],
          PrintNode (PStr ''n1''),
          PrintData (PInt 2048) (NFloat (Fin (float_round (2048000 / 4095)))) (PInt 25),
          PrintFireDetected (Fin 25),
          SaveAttempt \<lparr>node_id = PStr ''n1'', temp_val = PInt 25, humidity_val = PInt 40,
                    smoke_level = NFloat (Fin (float_round (2048000 / 4095))),
                    fire_risk = Fin 25, alert_status = ''CRITICAL''\<rparr>,
          PrintDatabaseError MySQLError,
          ModelPredict [PInt 0, PInt 50, PFloat (Fin 0)],
          ModelPredictProba [PInt 0, PInt 50, PFloat (Fin 0)],
          PrintNode (PStr ''node_unknown''),
          PrintData (PInt 0) (NFloat (Fin 0)) (PInt 0),
          PrintFireDetected (Fin 25),
          SaveAttempt \<lparr>node_id = PStr ''node_unknown'', temp_val = PInt 0, humidity_val = PInt 50,
                    smoke_level = NFloat (Fin 0), fire_risk = Fin 25,
                    alert_status = ''CRITICAL''\<rparr>,
          PrintSaved (PStr ''node_unknown'')],
        sensor_logs =
         [\<lparr>node_id = PStr ''node_unknown'', temp_val = PInt 0, humidity_val = PInt 50,
           smoke_level = NFloat (Fin 0), fire_risk = Fin 25, alert_status = ''CRITICAL''\<rparr>]\<rparr>"
proof -
  have empty_raw: "num_of (get_or [] ''raw_gas'' (PInt 0)) = Inr (NInt 0)"
    by (simp add: get_or_def)
  from sink_failure_isolated [where msg = "\<lparr>payload = n1_payload, db_state = Some MySQLError\<rparr>"
      and nxt = "\<lparr>payload = ''{}'', db_state = None\<rparr>" and e = MySQLError
      and w = empty_world and rest = "[]",
      OF example_decoded_n1 example_n1_raw map_value_2048 refl
      example_predict example_predict_proba _ _ _ refl _
      example_decoded_empty empty_raw map_value_0 refl
      example_predict example_predict_proba _ _ _ refl]
  show ?thesis
    by (simp add: example_n1_temp example_n1_hum example_n1_node example_n1_gas
        get_or_empty to_float_25 status_label_def world_add_def empty_world_def
        del: loop_forever.simps)
qed

text \<open>
  C8. A payload that cannot be decoded (bytes that are not UTF-8, or text that is not
  JSON) is logged and dropped: the handler prints the error and returns normally, making
  no classifier call and no persistence attempt, and stores nothing. The valid message
  after it is processed in full, and the loop goes on. The handler never raises and the
  loop returns on every list of deliveries. The same holds when the raw gas is not a
  number, when the calibration raises, and when either classifier call raises: the error
  is printed, nothing is handed to the sink, nothing is stored.
\<close>

theorem malformed_payload_isolated:
  assumes bad: "decoded env msg = Inl e"
    and dec': "decoded env nxt = Inr (PDict kvs')"
    and num': "num_of (get_or kvs' ''raw_gas'' (PInt 0)) = Inr x'"
    and cal': "map_value x' (NInt 0) (NInt 4095) (NInt 0) (NInt 1000) = Inr g'"
    and fs': "fs' = [get_or kvs' ''temp'' (PInt 0), get_or kvs' ''humidity'' (PInt 50), val_of g']"
    and lab': "predict env fs' = Inr label'"
    and pro': "predict_proba env fs' = Inr row'"
    and len': "1 < length row'"
    and node': "printable (get_or kvs' ''node_id'' (PStr ''node_unknown''))"
    and temp': "printable (get_or kvs' ''temp'' (PInt 0))"
    and R': "R' = \<lparr>node_id = get_or kvs' ''node_id'' (PStr ''node_unknown''),
                 temp_val = get_or kvs' ''temp'' (PInt 0),
                 humidity_val = get_or kvs' ''humidity'' (PInt 50),
                 smoke_level = g', fire_risk = fmul (row' ! 1) (Fin 100),
                 alert_status = status_label label' (fmul (row' ! 1) (Fin 100))\<rparr>"
  shows "on_message env msg w = (Inr (), world_add w [PrintErrorProcessing e] [])
     \<and> loop_forever env (msg # nxt # rest) w =
         Inr (world_add w
           ([PrintErrorProcessing e,
             ModelPredict fs', ModelPredictProba fs',
             PrintNode (get_or kvs' ''node_id'' (PStr ''node_unknown'')),
             PrintData (get_or kvs' ''raw_gas'' (PInt 0)) g' (get_or kvs' ''temp'' (PInt 0)),
             (if label' = 1 then PrintFireDetected (fmul (row' ! 1) (Fin 100))
              else PrintNormal (fmul (row' ! 1) (Fin 100))),
             SaveAttempt R'] @
            (case db_state nxt of
               None \<Rightarrow> [PrintSaved (get_or kvs' ''node_id'' (PStr ''node_unknown''))]
             | Some e' \<Rightarrow> [if is_mysql_error e' then PrintDatabaseError e'
                           else PrintErrorProcessing e']) @
            concat (map (events_of env) rest))
           ((case db_state nxt of None \<Rightarrow> [R'] | Some e' \<Rightarrow> []) @
            concat (map (rows_of env) rest)))
     \<and> (\<forall>m v. fst (on_message env m v) = Inr ())
     \<and> (\<forall>ms v. \<exists>v'. loop_forever env ms v = Inr v')
     \<and> (\<forall>m kvs x g label err. decoded env m = Inr (PDict kvs) \<longrightarrow>
          (num_of (get_or kvs ''raw_gas'' (PInt 0)) = Inl err \<longrightarrow>
             events_of env m = [PrintErrorProcessing err] \<and> rows_of env m = [])
        \<and> (num_of (get_or kvs ''raw_gas'' (PInt 0)) = Inr x \<longrightarrow>
            (map_value x (NInt 0) (NInt 4095) (NInt 0) (NInt 1000) = Inl err \<longrightarrow>
               events_of env m = [PrintErrorProcessing err] \<and> rows_of env m = [])
          \<and> (map_value x (NInt 0) (NInt 4095) (NInt 0) (NInt 1000) = Inr g \<longrightarrow>
              (predict env [get_or kvs ''temp'' (PInt 0), get_or kvs ''humidity'' (PInt 50), val_of g]
                 = Inl err \<longrightarrow>
                 events_of env m =
                   [ModelPredict [get_or kvs ''temp'' (PInt 0), get_or kvs ''humidity'' (PInt 50),
                                  val_of g],
                    PrintErrorProcessing err]
                 \<and> rows_of env m = [])
            \<and> (predict env [get_or kvs ''temp'' (PInt 0), get_or kvs ''humidity'' (PInt 50), val_of g]
                 = Inr label
               \<and> predict_proba env
                   [get_or kvs ''temp'' (PInt 0), get_or kvs ''humidity'' (PInt 50), val_of g]
                 = Inl err \<longrightarrow>
                 events_of env m =
                   [ModelPredict [get_or kvs ''temp'' (PInt 0), get_or kvs ''humidity'' (PInt 50),
                                  val_of g],
                    ModelPredictProba [get_or kvs ''temp'' (PInt 0),
                                       get_or kvs ''humidity'' (PInt 50), val_of g],
                    PrintErrorProcessing err]
                 \<and> rows_of env m = []))))"
proof -
  have one: "on_message env msg w = (Inr (), world_add w [PrintErrorProcessing e] [])"
    by (rule decoded_Inl [OF bad])
  from observed [OF decoded_Inl [OF bad]]
  have ev: "events_of env msg = [PrintErrorProcessing e]" and rows: "rows_of env msg = []"
    by blast+
  from processed_events [OF dec' num' cal' fs' lab' pro' len' node' temp' R']
  have ev': "events_of env nxt =
            [ModelPredict fs', ModelPredictProba fs',
             PrintNode (get_or kvs' ''node_id'' (PStr ''node_unknown'')),
             PrintData (get_or kvs' ''raw_gas'' (PInt 0)) g' (get_or kvs' ''temp'' (PInt 0)),
             (if label' = 1 then PrintFireDetected (fmul (row' ! 1) (Fin 100))
              else PrintNormal (fmul (row' ! 1) (Fin 100))),
             SaveAttempt R'] @
            (case db_state nxt of
               None \<Rightarrow> [PrintSaved (get_or kvs' ''node_id'' (PStr ''node_unknown''))]
             | Some e' \<Rightarrow> [if is_mysql_error e' then PrintDatabaseError e'
                           else PrintErrorProcessing e'])"
    and rows': "rows_of env nxt = (case db_state nxt of None \<Rightarrow> [R'] | Some e' \<Rightarrow> [])"
    by blast+
  have "loop_forever env (msg # nxt # rest) w =
      Inr (world_add w (PrintErrorProcessing e # events_of env nxt @ concat (map (events_of env) rest))
             (rows_of env nxt @ concat (map (rows_of env) rest)))"
    unfolding loop_forever_extend by (simp add: ev rows)
  then have two: "loop_forever env (msg # nxt # rest) w =
         Inr (world_add w
           ([PrintErrorProcessing e,
             ModelPredict fs', ModelPredictProba fs',
             PrintNode (get_or kvs' ''node_id'' (PStr ''node_unknown'')),
             PrintData (get_or kvs' ''raw_gas'' (PInt 0)) g' (get_or kvs' ''temp'' (PInt 0)),
             (if label' = 1 then PrintFireDetected (fmul (row' ! 1) (Fin 100))
              else PrintNormal (fmul (row' ! 1) (Fin 100))),
             SaveAttempt R'] @
            (case db_state nxt of
               None \<Rightarrow> [PrintSaved (get_or kvs' ''node_id'' (PStr ''node_unknown''))]
             | Some e' \<Rightarrow> [if is_mysql_error e' then PrintDatabaseError e'
                           else PrintErrorProcessing e']) @
            concat (map (events_of env) rest))
           ((case db_state nxt of None \<Rightarrow> [R'] | Some e' \<Rightarrow> []) @
            concat (map (rows_of env) rest)))"
    unfolding ev' rows' by simp
  have three: "\<forall>m v. fst (on_message env m v) = Inr ()"
    by (simp add: on_message_returns)
  have four: "\<forall>ms v. \<exists>v'. loop_forever env ms v = Inr v'"
    by (simp add: loop_forever_extend)
  have five: "\<forall>m kvs x g label err. decoded env m = Inr (PDict kvs) \<longrightarrow>
          (num_of (get_or kvs ''raw_gas'' (PInt 0)) = Inl err \<longrightarrow>
             events_of env m = [PrintErrorProcessing err] \<and> rows_of env m = [])
        \<and> (num_of (get_or kvs ''raw_gas'' (PInt 0)) = Inr x \<longrightarrow>
            (map_value x (NInt 0) (NInt 4095) (NInt 0) (NInt 1000) = Inl err \<longrightarrow>
               events_of env m = [PrintErrorProcessing err] \<and> rows_of env m = [])
          \<and> (map_value x (NInt 0) (NInt 4095) (NInt 0) (NInt 1000) = Inr g \<longrightarrow>
              (predict env [get_or kvs ''temp'' (PInt 0), get_or kvs ''humidity'' (PInt 50), val_of g]
                 = Inl err \<longrightarrow>
                 events_of env m =
                   [ModelPredict [get_or kvs ''temp'' (PInt 0), get_or kvs ''humidity'' (PInt 50),
                                  val_of g],
                    PrintErrorProcessing err]
                 \<and> rows_of env m = [])
            \<and> (predict env [get_or kvs ''temp'' (PInt 0), get_or kvs ''humidity'' (PInt 50), val_of g]
                 = Inr label
               \<and> predict_proba env
                   [get_or kvs ''temp'' (PInt 0), get_or kvs ''humidity'' (PInt 50), val_of g]
                 = Inl err \<longrightarrow>
                 events_of env m =
                   [ModelPredict [get_or kvs ''temp'' (PInt 0), get_or kvs ''humidity'' (PInt 50),
                                  val_of g],
                    ModelPredictProba [get_or kvs ''temp'' (PInt 0),
                                       get_or kvs ''humidity'' (PInt 50), val_of g],
                    PrintErrorProcessing err]
                 \<and> rows_of env m = [])))"
  proof (intro allI impI conjI)
    fix m kvs err
    assume d: "decoded env m = Inr (PDict kvs)"
      and n: "num_of (get_or kvs ''raw_gas'' (PInt 0)) = Inl err"
    from observed [OF on_message_not_number [OF d n]]
    show "events_of env m = [PrintErrorProcessing err]" "rows_of env m = []" by blast+
  next
    fix m kvs x err
    assume d: "decoded env m = Inr (PDict kvs)"
      and n: "num_of (get_or kvs ''raw_gas'' (PInt 0)) = Inr x"
      and c: "map_value x (NInt 0) (NInt 4095) (NInt 0) (NInt 1000) = Inl err"
    from observed [OF on_message_calibration_fails [OF d n c]]
    show "events_of env m = [PrintErrorProcessing err]" "rows_of env m = []" by blast+
  next
    fix m kvs x g err
    assume d: "decoded env m = Inr (PDict kvs)"
      and n: "num_of (get_or kvs ''raw_gas'' (PInt 0)) = Inr x"
      and c: "map_value x (NInt 0) (NInt 4095) (NInt 0) (NInt 1000) = Inr g"
      and p: "predict env [get_or kvs ''temp'' (PInt 0), get_or kvs ''humidity'' (PInt 50), val_of g]
                 = Inl err"
    from observed [OF on_message_predict_fails [OF d n c refl p]]
    show "events_of env m =
                   [ModelPredict [get_or kvs ''temp'' (PInt 0), get_or kvs ''humidity'' (PInt 50),
                                  val_of g],
                    PrintErrorProcessing err]" "rows_of env m = []" by blast+
  next
    fix m kvs x g label err
    assume d: "decoded env m = Inr (PDict kvs)"
      and n: "num_of (get_or kvs ''raw_gas'' (PInt 0)) = Inr x"
      and c: "map_value x (NInt 0) (NInt 4095) (NInt 0) (NInt 1000) = Inr g"
      and p: "predict env [get_or kvs ''temp'' (PInt 0), get_or kvs ''humidity'' (PInt 50), val_of g]
                 = Inr label
               \<and> predict_proba env
                   [get_or kvs ''temp'' (PInt 0), get_or kvs ''humidity'' (PInt 50), val_of g]
                 = Inl err"
    from p have p1: "predict env [get_or kvs ''temp'' (PInt 0), get_or kvs ''humidity'' (PInt 50), val_of g]
                 = Inr label"
      and p2: "predict_proba env
                   [get_or kvs ''temp'' (PInt 0), get_or kvs ''humidity'' (PInt 50), val_of g]
                 = Inl err" by blast+
    from observed [OF on_message_predict_proba_fails [OF d n c refl p1 p2]]
    show "events_of env m =
                   [ModelPredict [get_or kvs ''temp'' (PInt 0), get_or kvs ''humidity'' (PInt 50),
                                  val_of g],
                    ModelPredictProba [get_or kvs ''temp'' (PInt 0),
                                       get_or kvs ''humidity'' (PInt 50), val_of g],
                    PrintErrorProcessing err]" "rows_of env m = []" by blast+
  qed
  from one two three four five show ?thesis by (intro conjI)
qed

theorem malformed_payload_isolated_witness:
  "loop_forever example_env
     [\<lparr>payload = ''{raw_gas'', db_state = None\<rparr>, \<lparr>payload = n1_payload, db_state = None\<rparr>]
     empty_world =
   Inr \<lparr>events =
         [PrintErrorProcessing JSONDecodeError,
          ModelPredict [PInt 25, PInt 40, PFloat (Fin (float_round (2048000 / 4095)))],
          ModelPredictProba [PInt 25, PInt 40, PFloat (Fin (float_round (2048000 / 4095)))],
          PrintNode (PStr ''n1''),
          PrintData (PInt 2048) (NFloat (Fin (float_round (2048000 / 4095)))) (PInt 25),
          PrintFireDetected (Fin 25),
          SaveAttempt \<lparr>node_id = PStr ''n1'', temp_val = PInt 25, humidity_val = PInt 40,
                    smoke_level = NFloat (Fin (float_round (2048000 / 4095))),
                    fire_risk = Fin 25, alert_status = ''CRITICAL''\<rparr>,
          PrintSaved (PStr ''n1'')],
        sensor_logs =
         [\<lparr>node_id = PStr ''n1'', temp_val = PInt 25, humidity_val = PInt 40,
           smoke_level = NFloat (Fin (float_round (2048000 / 4095))),
           fire_risk = Fin 25, alert_status = ''CRITICAL''\<rparr>]\<rparr>
   \<and> on_message example_env \<lparr>payload = ''{raw_gas'', db_state = None\<rparr> empty_world =
       (Inr (), \<lparr>events = [PrintErrorProcessing JSONDecodeError], sensor_logs = []\<rparr>)
   \<and> events_of example_env \<lparr>payload = huge_payload, db_state = None\<rparr> =
       [PrintErrorProcessing OverflowError]
   \<and> rows_of example_env \<lparr>payload = huge_payload, db_state = None\<rparr> = []"
proof -
  note inst = malformed_payload_isolated [where msg = "\<lparr>payload = ''{raw_gas'', db_state = None\<rparr>"
      and nxt = "\<lparr>payload = n1_payload, db_state = None\<rparr>"
      and w = empty_world and rest = "[]",
      OF example_decoded_bad example_decoded_n1 example_n1_raw map_value_2048 refl
      example_predict example_predict_proba _ _ _ refl]
  have l: "1 < length [Fin (3 / 4), Fin (1 / 4)]" by simp
  have n: "printable (get_or n1_fields ''node_id'' (PStr ''node_unknown''))"
    by (simp add: example_n1_node)
  have t: "printable (get_or n1_fields ''temp'' (PInt 0))"
    by (simp add: example_n1_temp)
  note all = inst [OF l n t]
  from all have a: "on_message example_env \<lparr>payload = ''{raw_gas'', db_state = None\<rparr> empty_world =
       (Inr (), \<lparr>events = [PrintErrorProcessing JSONDecodeError], sensor_logs = []\<rparr>)"
    by (simp add: world_add_def empty_world_def)
  from all have b: "loop_forever example_env
     [\<lparr>payload = ''{raw_gas'', db_state = None\<rparr>, \<lparr>payload = n1_payload, db_state = None\<rparr>]
     empty_world =
   Inr \<lparr>events =
         [PrintErrorProcessing JSONDecodeError,
          ModelPredict [PInt 25, PInt 40, PFloat (Fin (float_round (2048000 / 4095)))],
          ModelPredictProba [PInt 25, PInt 40, PFloat (Fin (float_round (2048000 / 4095)))],
          PrintNode (PStr ''n1''),
          PrintData (PInt 2048) (NFloat (Fin (float_round (2048000 / 4095)))) (PInt 25),
          PrintFireDetected (Fin 25),
          SaveAttempt \<lparr>node_id = PStr ''n1'', temp_val = PInt 25, humidity_val = PInt 40,
                    smoke_level = NFloat (Fin (float_round (2048000 / 4095))),
                    fire_risk = Fin 25, alert_status = ''CRITICAL''\<rparr>,
          PrintSaved (PStr ''n1'')],
        sensor_logs =
         [\<lparr>node_id = PStr ''n1'', temp_val = PInt 25, humidity_val = PInt 40,
           smoke_level = NFloat (Fin (float_round (2048000 / 4095))),
           fire_risk = Fin 25, alert_status = ''CRITICAL''\<rparr>]\<rparr>"
    by (simp add: example_n1_temp example_n1_hum example_n1_node example_n1_gas
        to_float_25 status_label_def world_add_def empty_world_def
        del: loop_forever.simps)
  from all have five: "\<forall>m kvs x err. decoded example_env m = Inr (PDict kvs) \<longrightarrow>
        (num_of (get_or kvs ''raw_gas'' (PInt 0)) = Inr x \<longrightarrow>
            (map_value x (NInt 0) (NInt 4095) (NInt 0) (NInt 1000) = Inl err \<longrightarrow>
               events_of example_env m = [PrintErrorProcessing err] \<and> rows_of example_env m = []))"
    by blast
  from five example_decoded_huge example_huge_raw map_value_huge
  have c: "events_of example_env \<lparr>payload = huge_payload, db_state = None\<rparr> =
       [PrintErrorProcessing OverflowError]
   \<and> rows_of example_env \<lparr>payload = huge_payload, db_state = None\<rparr> = []"
    by blast
  from a b c show ?thesis by (intro conjI) blast+
qed

text \<open>
  C9, as the spec states it, fails for a raw gas far outside the range. The message whose
  raw gas is the integer \<open>10\<close> to the \<open>309\<close> is not calibrated at all: the division raises
  \<^verbatim>\<open>OverflowError\<close>, the handler prints it and drops the message, so nothing reaches the
  classifier or the sink. And the float just below zero, \<open>-2\<close> to the \<open>-1074\<close>, calibrates
  to zero, a value inside the output range.
\<close>

theorem raw_gas_overflow_counterexample:
  "events_of example_env \<lparr>payload = huge_payload, db_state = None\<rparr>
      = [PrintErrorProcessing OverflowError]
   \<and> rows_of example_env \<lparr>payload = huge_payload, db_state = None\<rparr> = []
   \<and> map_value (NInt (10 ^ 309)) (NInt 0) (NInt 4095) (NInt 0) (NInt 1000) = Inl OverflowError
   \<and> (4095::int) < 10 ^ 309
   \<and> map_value (NFloat (Fin (- (2 powr (- 1074))))) (NInt 0) (NInt 4095) (NInt 0) (NInt 1000)
      = Inr (NFloat (Fin 0))
   \<and> - (2 powr (- 1074)) < (0::real)"
proof -
  have "map_value (NFloat (Fin (- (2 powr (- 1074))))) (NInt 0) (NInt 4095) (NInt 0) (NInt 1000)
      = Inr (NFloat (Fin 0))"
    unfolding map_value_float_consts calibrate_float_tiny ..
  moreover have "(4095::int) < 10 ^ 309" by simp
  moreover have "- (2 powr (- 1074)) < (0::real)" by simp
  ultimately show ?thesis
    using example_huge_events [of None] map_value_huge by (intro conjI) blast+
qed

text \<open>
  C9, amended. The calibration does not clamp. If the raw gas has the value \<open>r\<close> outside
  \<open>[0, 4095]\<close> and the calibration returns, the result is a float at or below 0 (for
  \<open>r < 0\<close>) or at or above 1000 (for \<open>4095 < r\<close>). For an integer raw gas it is the double
  nearest to \<open>r * 1000 / 4095\<close>, strictly outside \<open>[0, 1000]\<close>; for a float raw gas it is the
  float calibration, each operation rounded. When the classifier answers and the node id
  and the temperature can be printed, this value is the third feature given to the
  classifier and the \<open>smoke_level\<close> of the row handed to the sink, unchanged.
\<close>

theorem no_clamping:
  assumes dec: "decoded env msg = Inr (PDict kvs)"
    and num: "num_of (get_or kvs ''raw_gas'' (PInt 0)) = Inr x"
    and hv: "has_value x r"
    and out: "r < 0 \<or> 4095 < r"
    and cal: "map_value x (NInt 0) (NInt 4095) (NInt 0) (NInt 1000) = Inr g"
    and fs: "fs = [get_or kvs ''temp'' (PInt 0), get_or kvs ''humidity'' (PInt 50), val_of g]"
    and lab: "predict env fs = Inr label"
    and pro: "predict_proba env fs = Inr row"
    and len: "1 < length row"
    and node: "printable (get_or kvs ''node_id'' (PStr ''node_unknown''))"
    and temp: "printable (get_or kvs ''temp'' (PInt 0))"
    and R: "R = \<lparr>node_id = get_or kvs ''node_id'' (PStr ''node_unknown''),
                 temp_val = get_or kvs ''temp'' (PInt 0),
                 humidity_val = get_or kvs ''humidity'' (PInt 50),
                 smoke_level = g, fire_risk = fmul (row ! 1) (Fin 100),
                 alert_status = status_label label (fmul (row ! 1) (Fin 100))\<rparr>"
  shows "(\<exists>f. g = NFloat f \<and> (r < 0 \<longrightarrow> fle f (Fin 0)) \<and> (4095 < r \<longrightarrow> fle (Fin 1000) f))
     \<and> (\<forall>i. x = NInt i \<longrightarrow>
           g = NFloat (Fin (float_round (of_int i * 1000 / 4095)))
         \<and> (i < 0 \<longrightarrow> float_round (of_int i * 1000 / 4095) < 0)
         \<and> (4095 < i \<longrightarrow> 1000 < float_round (of_int i * 1000 / 4095))
         \<and> \<bar>float_round (of_int i * 1000 / 4095) - of_int i * 1000 / 4095\<bar>
             \<le> \<bar>of_int i * 1000 / 4095\<bar> / 2 ^ 53 + 2 powr (- 1075))
     \<and> (\<forall>a. x = NFloat (Fin a) \<longrightarrow> g = NFloat (calibrate_float (Fin a)))
     \<and> events_of env msg =
          [ModelPredict fs, ModelPredictProba fs,
           PrintNode (get_or kvs ''node_id'' (PStr ''node_unknown'')),
           PrintData (get_or kvs ''raw_gas'' (PInt 0)) g (get_or kvs ''temp'' (PInt 0)),
           (if label = 1 then PrintFireDetected (fmul (row ! 1) (Fin 100))
            else PrintNormal (fmul (row ! 1) (Fin 100))),
           SaveAttempt R] @
          (case db_state msg of
             None \<Rightarrow> [PrintSaved (get_or kvs ''node_id'' (PStr ''node_unknown''))]
           | Some e \<Rightarrow> [if is_mysql_error e then PrintDatabaseError e else PrintErrorProcessing e])
     \<and> rows_of env msg = (case db_state msg of None \<Rightarrow> [R] | Some e \<Rightarrow> [])"
proof -
  have ints: "\<forall>i. x = NInt i \<longrightarrow>
           g = NFloat (Fin (float_round (of_int i * 1000 / 4095)))
         \<and> (i < 0 \<longrightarrow> float_round (of_int i * 1000 / 4095) < 0)
         \<and> (4095 < i \<longrightarrow> 1000 < float_round (of_int i * 1000 / 4095))
         \<and> \<bar>float_round (of_int i * 1000 / 4095) - of_int i * 1000 / 4095\<bar>
             \<le> \<bar>of_int i * 1000 / 4095\<bar> / 2 ^ 53 + 2 powr (- 1075)"
  proof (intro allI impI)
    fix i assume x: "x = NInt i"
    from cal have g: "g = NFloat (Fin (float_round (of_int i * 1000 / 4095)))"
      unfolding x map_value_int_consts by (simp split: if_splits)
    show "g = NFloat (Fin (float_round (of_int i * 1000 / 4095)))
         \<and> (i < 0 \<longrightarrow> float_round (of_int i * 1000 / 4095) < 0)
         \<and> (4095 < i \<longrightarrow> 1000 < float_round (of_int i * 1000 / 4095))
         \<and> \<bar>float_round (of_int i * 1000 / 4095) - of_int i * 1000 / 4095\<bar>
             \<le> \<bar>of_int i * 1000 / 4095\<bar> / 2 ^ 53 + 2 powr (- 1075)"
      using g float_round_below_zero [of i] float_round_above_1000 [of i]
        float_round_err [of "of_int i * 1000 / 4095"]
      by blast
  qed
  have floats: "\<forall>a. x = NFloat (Fin a) \<longrightarrow> g = NFloat (calibrate_float (Fin a))"
    using cal by (auto simp: map_value_float_consts)
  have side: "\<exists>f. g = NFloat f \<and> (r < 0 \<longrightarrow> fle f (Fin 0)) \<and> (4095 < r \<longrightarrow> fle (Fin 1000) f)"
  proof (cases x)
    case (NInt i)
    with hv have r: "r = of_int i" by simp
    from ints NInt have g: "g = NFloat (Fin (float_round (of_int i * 1000 / 4095)))"
      and lo: "i < 0 \<longrightarrow> float_round (of_int i * 1000 / 4095) < 0"
      and hi: "4095 < i \<longrightarrow> 1000 < float_round (of_int i * 1000 / 4095)"
      by blast+
    have "r < 0 \<longrightarrow> fle (Fin (float_round (of_int i * 1000 / 4095))) (Fin 0)"
      using lo by (auto simp: r)
    moreover have "4095 < r \<longrightarrow> fle (Fin 1000) (Fin (float_round (of_int i * 1000 / 4095)))"
      using hi by (auto simp: r)
    ultimately show ?thesis using g by blast
  next
    case (NFloat f)
    with hv have f: "f = Fin r" by (cases f) auto
    from floats NFloat f have g: "g = NFloat (calibrate_float (Fin r))" by blast
    have "r < 0 \<longrightarrow> fle (calibrate_float (Fin r)) (Fin 0)"
    proof
      assume "r < 0"
      then have "fle (Fin r) (Fin 0)" by simp
      from calibrate_float_mono [OF this] show "fle (calibrate_float (Fin r)) (Fin 0)"
        by (simp add: calibrate_float_0)
    qed
    moreover have "4095 < r \<longrightarrow> fle (Fin 1000) (calibrate_float (Fin r))"
    proof
      assume "4095 < r"
      then have "fle (Fin 4095) (Fin r)" by simp
      from calibrate_float_mono [OF this] show "fle (Fin 1000) (calibrate_float (Fin r))"
        by (simp add: calibrate_float_4095)
    qed
    ultimately show ?thesis using g by blast
  qed
  from processed_events [OF dec num cal fs lab pro len node temp R] side ints floats
  show ?thesis by (intro conjI) blast+
qed

theorem no_clamping_witness:
  "events_of example_env \<lparr>payload = ''{\"raw_gas\":5000}'', db_state = None\<rparr> =
     [ModelPredict [PInt 0, PInt 50, PFloat (Fin (float_round (5000000 / 4095)))],
      ModelPredictProba [PInt 0, PInt 50, PFloat (Fin (float_round (5000000 / 4095)))],
      PrintNode (PStr ''node_unknown''),
      PrintData (PInt 5000) (NFloat (Fin (float_round (5000000 / 4095)))) (PInt 0),
      PrintFireDetected (Fin 25),
      SaveAttempt \<lparr>node_id = PStr ''node_unknown'', temp_val = PInt 0, humidity_val = PInt 50,
                smoke_level = NFloat (Fin (float_round (5000000 / 4095))),
                fire_risk = Fin 25, alert_status = ''CRITICAL''\<rparr>,
      PrintSaved (PStr ''node_unknown'')]
   \<and> rows_of example_env \<lparr>payload = ''{\"raw_gas\":5000}'', db_state = None\<rparr> =
     [\<lparr>node_id = PStr ''node_unknown'', temp_val = PInt 0, humidity_val = PInt 50,
       smoke_level = NFloat (Fin (float_round (5000000 / 4095))),
       fire_risk = Fin 25, alert_status = ''CRITICAL''\<rparr>]
   \<and> 1000 < float_round (5000000 / 4095)"
proof -
  have hv: "has_value (NInt 5000) 5000" by simp
  have out: "(5000::real) < 0 \<or> 4095 < (5000::real)" by simp
  note inst = no_clamping [where msg = "\<lparr>payload = ''{\"raw_gas\":5000}'', db_state = None\<rparr>",
      OF example_decoded_5000 example_5000_raw hv out map_value_5000 refl
      example_predict example_predict_proba _ _ _ refl]
  have l: "1 < length [Fin (3 / 4), Fin (1 / 4)]" by simp
  have n: "printable (get_or [(''raw_gas'', PInt 5000)] ''node_id'' (PStr ''node_unknown''))"
    by (simp add: get_or_def)
  have t: "printable (get_or [(''raw_gas'', PInt 5000)] ''temp'' (PInt 0))"
    by (simp add: get_or_def)
  from inst [OF l n t] show ?thesis
    by (simp add: get_or_def to_float_25 status_label_def)
qed

text \<open>
  C10. A payload that is valid JSON but not an object (a list, a number, a string, a
  boolean or null) is dropped: reading the first field raises \<^verbatim>\<open>AttributeError\<close>, the
  handler prints it and returns, the classifier is not called, no persistence attempt is
  made, no row is stored, and the loop goes on with the next messages.
\<close>

theorem non_object_payload_dropped:
  assumes dec: "decoded env msg = Inr d" and nd: "\<not> is_dict d"
  shows "on_message env msg w = (Inr (), world_add w [PrintErrorProcessing AttributeError] [])
     \<and> events_of env msg = [PrintErrorProcessing AttributeError]
     \<and> rows_of env msg = []
     \<and> filter is_model_call (events_of env msg) = []
     \<and> filter is_save_attempt (events_of env msg) = []
     \<and> loop_forever env (msg # msgs) w =
         Inr (world_add w (PrintErrorProcessing AttributeError # concat (map (events_of env) msgs))
                (concat (map (rows_of env) msgs)))"
proof -
  have run: "\<And>v. on_message env msg v =
      (Inr (), world_add v [PrintErrorProcessing AttributeError] [])"
    by (rule on_message_not_dict [OF dec nd])
  from run [of empty_world]
  have ev: "events_of env msg = [PrintErrorProcessing AttributeError]"
    and rows: "rows_of env msg = []"
    using observed by blast+
  have loop: "loop_forever env (msg # msgs) w =
         Inr (world_add w (PrintErrorProcessing AttributeError # concat (map (events_of env) msgs))
                (concat (map (rows_of env) msgs)))"
    unfolding loop_forever_extend by (simp add: ev rows)
  from run [of w] ev rows loop show ?thesis by simp
qed

theorem non_object_payload_dropped_witness:
  "on_message example_env \<lparr>payload = ''[1,2]'', db_state = None\<rparr> empty_world =
      (Inr (), world_add empty_world [PrintErrorProcessing AttributeError] [])
   \<and> events_of example_env \<lparr>payload = ''[1,2]'', db_state = None\<rparr> =
      [PrintErrorProcessing AttributeError]
   \<and> rows_of example_env \<lparr>payload = ''[1,2]'', db_state = None\<rparr> = []
   \<and> loop_forever example_env
        [\<lparr>payload = ''[1,2]'', db_state = None\<rparr>, \<lparr>payload = n1_payload, db_state = None\<rparr>]
        empty_world =
      Inr (world_add empty_world
             (PrintErrorProcessing AttributeError #
              events_of example_env \<lparr>payload = n1_payload, db_state = None\<rparr>)
             (rows_of example_env \<lparr>payload = n1_payload, db_state = None\<rparr>))"
  using non_object_payload_dropped [OF example_decoded_list, of None empty_world
      "[\<lparr>payload = n1_payload, db_state = None\<rparr>]"]
  by (simp del: loop_forever.simps)

end
